theory Spec2Isabelle
  imports Main "HOL-Library.Word"
begin

unbundle bit_operations_syntax

section \<open>Errors\<close>

text \<open>
  The exceptions that the modelled code can raise.  \<open>ExerciseError\<close> is the exception of the
  exercise stubs, \<open>IndexError\<close> is Python's own exception for a list index out of range,
  \<open>NameError\<close>, \<open>AttributeError\<close> and \<open>TypeError\<close> are Python's exceptions for an unbound
  name, for a missing attribute and for an operation on a value of the wrong type.
\<close>

datatype error =
    InvalidInstruction
  | IndexError
  | NameError string
  | AttributeError
  | TypeError
  | X86TypeCheckError string
  | ExerciseError string

section \<open>Byte stream (X86ByteStream.py)\<close>

text \<open>
  \<open>StreamObj\<close> holds the list of bytes, the current position and the position of the last
  \<open>SetPos\<close>.  Python integers are unbounded, so all three are modelled with \<open>int\<close>.
\<close>

record StreamObj =
  bytes :: "int list"
  pos :: int
  origpos :: int

definition Init :: "StreamObj \<Rightarrow> StreamObj" where
  "Init s = s\<lparr>pos := 0, origpos := 0\<rparr>"

definition StreamObj_new :: "int list \<Rightarrow> StreamObj" where
  "StreamObj_new bs = Init \<lparr>bytes = bs, pos = 0, origpos = 0\<rparr>"

text \<open>
  Python's \<open>xs[i]\<close> on a list: indices \<open>0 .. len-1\<close> read from the front, indices
  \<open>-len .. -1\<close> read from the back, every other index raises IndexError.
\<close>

definition py_index :: "'a list \<Rightarrow> int \<Rightarrow> error + 'a" where
  "py_index xs i =
     (if 0 \<le> i \<and> i < int (length xs) then Inr (xs ! nat i)
      else if i < 0 \<and> - int (length xs) \<le> i then Inr (xs ! nat (int (length xs) + i))
      else Inl IndexError)"

definition GetByteInternal :: "StreamObj \<Rightarrow> error + int" where
  "GetByteInternal s = py_index (bytes s) (pos s)"

text \<open>
  Every reading method returns its outcome together with the stream afterwards: an exception
  leaves the position where the last successful \<open>Byte\<close> put it.
\<close>

definition Byte :: "StreamObj \<Rightarrow> (error + int) \<times> StreamObj" where
  "Byte s =
     (if pos s - origpos s \<ge> 16 then (Inl InvalidInstruction, s)
      else (case GetByteInternal s of
              Inl e \<Rightarrow> (Inl e, s)
            | Inr b \<Rightarrow> (Inr b, s\<lparr>pos := pos s + 1\<rparr>)))"

definition Word :: "StreamObj \<Rightarrow> (error + int) \<times> StreamObj" where
  "Word s =
     (case Byte s of
        (Inl e, s1) \<Rightarrow> (Inl e, s1)
      | (Inr b0, s1) \<Rightarrow>
          (case Byte s1 of
             (Inl e, s2) \<Rightarrow> (Inl e, s2)
           | (Inr b1, s2) \<Rightarrow> (Inr ((push_bit 8 b1) OR b0), s2)))"

definition Dword :: "StreamObj \<Rightarrow> (error + int) \<times> StreamObj" where
  "Dword s =
     (case Word s of
        (Inl e, s1) \<Rightarrow> (Inl e, s1)
      | (Inr w0, s1) \<Rightarrow>
          (case Word s1 of
             (Inl e, s2) \<Rightarrow> (Inl e, s2)
           | (Inr w1, s2) \<Rightarrow> (Inr ((push_bit 16 w1) OR w0), s2)))"

definition Pos :: "StreamObj \<Rightarrow> int" where
  "Pos s = pos s"

definition SetPos :: "StreamObj \<Rightarrow> int \<Rightarrow> StreamObj" where
  "SetPos s ea = s\<lparr>pos := ea, origpos := ea\<rparr>"

text \<open>\<open>Byte_n n s\<close> calls \<open>Byte\<close> \<open>n\<close> times in a row, collecting the outcomes in order.\<close>

fun Byte_n :: "nat \<Rightarrow> StreamObj \<Rightarrow> (error + int) list \<times> StreamObj" where
  "Byte_n 0 s = ([], s)"
| "Byte_n (Suc n) s =
     (case Byte s of (r, s1) \<Rightarrow> (case Byte_n n s1 of (rs, s2) \<Rightarrow> (r # rs, s2)))"

text \<open>
  Sequencing on \<open>Byte\<close>, used to state what \<open>Word\<close> and \<open>Dword\<close> compute: call \<open>Byte\<close>; an
  exception ends the computation, a byte is handed to the continuation with the stream after it.
\<close>

definition then_Byte ::
  "StreamObj \<Rightarrow> (int \<Rightarrow> StreamObj \<Rightarrow> (error + int) \<times> StreamObj) \<Rightarrow> (error + int) \<times> StreamObj" where
  "then_Byte s k = (case Byte s of (Inl e, s1) \<Rightarrow> (Inl e, s1) | (Inr b, s1) \<Rightarrow> k b s1)"


section \<open>Enumerations (X86MetaData.py)\<close>

datatype PF1Elt = REP | REPNE | LOCK
datatype R8Elt = Al | Cl | Dl | Bl | Ah | Ch | Dh | Bh
datatype R16Elt = Ax | Cx | Dx | Bx | Sp | Bp | Si | Di
datatype R32Elt = Eax | Ecx | Edx | Ebx | Esp | Ebp | Esi | Edi
datatype SegElt = ES | CS | SS | DS | FS | GS
datatype CntElt = CR0 | CR1 | CR2 | CR3 | CR4 | CR5 | CR6 | CR7
datatype DbgElt = DR0 | DR1 | DR2 | DR3 | DR4 | DR5 | DR6 | DR7
datatype FPUElt = ST0 | ST1 | ST2 | ST3 | ST4 | ST5 | ST6 | ST7
datatype MMXElt = MM0 | MM1 | MM2 | MM3 | MM4 | MM5 | MM6 | MM7
datatype XMMElt = XMM0 | XMM1 | XMM2 | XMM3 | XMM4 | XMM5 | XMM6 | XMM7
datatype MSElt = Mb | Mw | Md | Mf | Mq | Mt | Mdq

text \<open>
  The mnemonic enumeration has 561 elements.  The model keeps the ones whose rows of
  \<open>mnem_to_encodings\<close> are embedded below, and the 21 mnemonics (the conditional jumps and the
  loop instructions) to which X86EncodeTable.py assigns no row.
\<close>

datatype MnemElt =
    Aaa | Aas | Add | Daa | Das | Jmp | Pushad | Pushaw
  | Ja | Jae | Jb | Jbe | Jcxz | Jecxz | Jg | Jge | Jl | Jle | Jno | Jnp | Jns | Jnz | Jo | Jp
  | Js | Jz | Loop | Loopnz | Loopz

text \<open>\<open>IntValue\<close> of an enumeration element is its position in the list it was declared with.\<close>

fun IntValue_R8 :: "R8Elt \<Rightarrow> int" where
  "IntValue_R8 Al = 0" | "IntValue_R8 Cl = 1" | "IntValue_R8 Dl = 2" | "IntValue_R8 Bl = 3"
| "IntValue_R8 Ah = 4" | "IntValue_R8 Ch = 5" | "IntValue_R8 Dh = 6" | "IntValue_R8 Bh = 7"

fun IntValue_R16 :: "R16Elt \<Rightarrow> int" where
  "IntValue_R16 Ax = 0" | "IntValue_R16 Cx = 1" | "IntValue_R16 Dx = 2" | "IntValue_R16 Bx = 3"
| "IntValue_R16 Sp = 4" | "IntValue_R16 Bp = 5" | "IntValue_R16 Si = 6" | "IntValue_R16 Di = 7"

fun IntValue_R32 :: "R32Elt \<Rightarrow> int" where
  "IntValue_R32 Eax = 0" | "IntValue_R32 Ecx = 1" | "IntValue_R32 Edx = 2" | "IntValue_R32 Ebx = 3"
| "IntValue_R32 Esp = 4" | "IntValue_R32 Ebp = 5" | "IntValue_R32 Esi = 6" | "IntValue_R32 Edi = 7"

fun IntValue_Seg :: "SegElt \<Rightarrow> int" where
  "IntValue_Seg ES = 0" | "IntValue_Seg CS = 1" | "IntValue_Seg SS = 2" | "IntValue_Seg DS = 3"
| "IntValue_Seg FS = 4" | "IntValue_Seg GS = 5"

fun IntValue_Cnt :: "CntElt \<Rightarrow> int" where
  "IntValue_Cnt CR0 = 0" | "IntValue_Cnt CR1 = 1" | "IntValue_Cnt CR2 = 2" | "IntValue_Cnt CR3 = 3"
| "IntValue_Cnt CR4 = 4" | "IntValue_Cnt CR5 = 5" | "IntValue_Cnt CR6 = 6" | "IntValue_Cnt CR7 = 7"

fun IntValue_Dbg :: "DbgElt \<Rightarrow> int" where
  "IntValue_Dbg DR0 = 0" | "IntValue_Dbg DR1 = 1" | "IntValue_Dbg DR2 = 2" | "IntValue_Dbg DR3 = 3"
| "IntValue_Dbg DR4 = 4" | "IntValue_Dbg DR5 = 5" | "IntValue_Dbg DR6 = 6" | "IntValue_Dbg DR7 = 7"

fun IntValue_FPU :: "FPUElt \<Rightarrow> int" where
  "IntValue_FPU ST0 = 0" | "IntValue_FPU ST1 = 1" | "IntValue_FPU ST2 = 2" | "IntValue_FPU ST3 = 3"
| "IntValue_FPU ST4 = 4" | "IntValue_FPU ST5 = 5" | "IntValue_FPU ST6 = 6" | "IntValue_FPU ST7 = 7"

fun IntValue_MMX :: "MMXElt \<Rightarrow> int" where
  "IntValue_MMX MM0 = 0" | "IntValue_MMX MM1 = 1" | "IntValue_MMX MM2 = 2" | "IntValue_MMX MM3 = 3"
| "IntValue_MMX MM4 = 4" | "IntValue_MMX MM5 = 5" | "IntValue_MMX MM6 = 6" | "IntValue_MMX MM7 = 7"

fun IntValue_XMM :: "XMMElt \<Rightarrow> int" where
  "IntValue_XMM XMM0 = 0" | "IntValue_XMM XMM1 = 1" | "IntValue_XMM XMM2 = 2"
| "IntValue_XMM XMM3 = 3" | "IntValue_XMM XMM4 = 4" | "IntValue_XMM XMM5 = 5"
| "IntValue_XMM XMM6 = 6" | "IntValue_XMM XMM7 = 7"

section \<open>Operands\<close>

text \<open>
  Modelled from the spec: the operand classes (\<open>Gb\<close>, \<open>Gw\<close>, \<open>Gd\<close>, \<open>SegReg\<close>, \<open>ControlReg\<close>,
  \<open>DebugReg\<close>, \<open>FPUReg\<close>, \<open>MMXReg\<close>, \<open>XMMReg\<close>, \<open>Ib\<close>, \<open>Iw\<close>, \<open>Id\<close>, \<open>Mem16\<close>, \<open>Mem32\<close>,
  \<open>AP16\<close>, \<open>AP32\<close>, \<open>JccTarget\<close>) and \<open>Instruction\<close> are declared in X86.py, which is not
  among the sources; X86Internal.py holds their base classes \<open>Register\<close>, \<open>Immediate\<close>,
  \<open>MemExpr\<close> and \<open>FarTarget\<close>, and X86Yacc.py shows their constructors.  The data model of the
  spec gives the fields: immediates carry a value modulo their width (the guarded integer's mask
  is the word type here), a \<open>Mem16\<close> has segment, size, optional base, optional index and optional
  16-bit displacement, a \<open>Mem32\<close> has a scale and a 32-bit displacement in addition, a
  \<open>JccTarget\<close> has the taken and the not-taken address.  The class \<open>Id\<close> is named \<open>Id_imm\<close>.
\<close>

datatype Register =
    Gb R8Elt | Gw R16Elt | Gd R32Elt | SegReg SegElt | ControlReg CntElt | DebugReg DbgElt
  | FPUReg FPUElt | MMXReg MMXElt | XMMReg XMMElt

datatype Immediate = Ib "8 word" | Iw "16 word" | Id_imm "32 word"

datatype MemExpr =
    Mem16 SegElt MSElt "R16Elt option" "R16Elt option" "16 word option"
  | Mem32 SegElt MSElt "R32Elt option" "R32Elt option" nat "32 word option"

datatype FarTarget = AP16 "16 word" "16 word" | AP32 "16 word" "32 word"

datatype Operand =
    OReg Register | OImm Immediate | OMem MemExpr | OFar FarTarget
  | JccTarget "32 word" "32 word"

text \<open>The Python class of an operand object, for the comparisons \<open>type(op) == type(x)\<close>.\<close>

datatype pyclass =
    C_Gb | C_Gw | C_Gd | C_SegReg | C_ControlReg | C_DebugReg | C_FPUReg | C_MMXReg | C_XMMReg
  | C_Ib | C_Iw | C_Id | C_Mem16 | C_Mem32 | C_AP16 | C_AP32 | C_JccTarget

fun type_Register :: "Register \<Rightarrow> pyclass" where
  "type_Register (Gb _) = C_Gb"
| "type_Register (Gw _) = C_Gw"
| "type_Register (Gd _) = C_Gd"
| "type_Register (SegReg _) = C_SegReg"
| "type_Register (ControlReg _) = C_ControlReg"
| "type_Register (DebugReg _) = C_DebugReg"
| "type_Register (FPUReg _) = C_FPUReg"
| "type_Register (MMXReg _) = C_MMXReg"
| "type_Register (XMMReg _) = C_XMMReg"

fun type_Operand :: "Operand \<Rightarrow> pyclass" where
  "type_Operand (OReg r) = type_Register r"
| "type_Operand (OImm (Ib _)) = C_Ib"
| "type_Operand (OImm (Iw _)) = C_Iw"
| "type_Operand (OImm (Id_imm _)) = C_Id"
| "type_Operand (OMem (Mem16 _ _ _ _ _)) = C_Mem16"
| "type_Operand (OMem (Mem32 _ _ _ _ _ _)) = C_Mem32"
| "type_Operand (OFar (AP16 _ _)) = C_AP16"
| "type_Operand (OFar (AP32 _ _)) = C_AP32"
| "type_Operand (JccTarget _ _) = C_JccTarget"

fun IntValue_Register :: "Register \<Rightarrow> int" where
  "IntValue_Register (Gb r) = IntValue_R8 r"
| "IntValue_Register (Gw r) = IntValue_R16 r"
| "IntValue_Register (Gd r) = IntValue_R32 r"
| "IntValue_Register (SegReg r) = IntValue_Seg r"
| "IntValue_Register (ControlReg r) = IntValue_Cnt r"
| "IntValue_Register (DebugReg r) = IntValue_Dbg r"
| "IntValue_Register (FPUReg r) = IntValue_FPU r"
| "IntValue_Register (MMXReg r) = IntValue_MMX r"
| "IntValue_Register (XMMReg r) = IntValue_XMM r"

fun Seg :: "MemExpr \<Rightarrow> SegElt" where
  "Seg (Mem16 sg _ _ _ _) = sg"
| "Seg (Mem32 sg _ _ _ _ _) = sg"

fun size_Mem :: "MemExpr \<Rightarrow> MSElt" where
  "size_Mem (Mem16 _ sz _ _ _) = sz"
| "size_Mem (Mem32 _ sz _ _ _ _) = sz"

fun is_Mem16 :: "MemExpr \<Rightarrow> bool" where
  "is_Mem16 (Mem16 _ _ _ _ _) = True"
| "is_Mem16 (Mem32 _ _ _ _ _ _) = False"

fun no_BaseReg_IndexReg :: "MemExpr \<Rightarrow> bool" where
  "no_BaseReg_IndexReg (Mem16 _ _ b i _) = (b = None \<and> i = None)"
| "no_BaseReg_IndexReg (Mem32 _ _ b i _ _) = (b = None \<and> i = None)"

text \<open>\<open>m(seg)\<close>: a copy of the memory expression with another segment.\<close>

fun with_Seg :: "MemExpr \<Rightarrow> SegElt \<Rightarrow> MemExpr" where
  "with_Seg (Mem16 _ sz b i d) sg = Mem16 sg sz b i d"
| "with_Seg (Mem32 _ sz b i sc d) sg = Mem32 sg sz b i sc d"

text \<open>
  Modelled from the spec: \<open>DefaultSeg\<close> is a method of \<open>Mem16\<close> and \<open>Mem32\<close> in X86.py.  The spec:
  the default segment is \<open>SS\<close> when the base is one of \<open>ESP\<close>, \<open>EBP\<close>, \<open>SP\<close>, \<open>BP\<close>, and \<open>DS\<close>
  otherwise.
\<close>

fun DefaultSeg :: "MemExpr \<Rightarrow> SegElt" where
  "DefaultSeg (Mem16 _ _ b _ _) = (if b = Some Sp \<or> b = Some Bp then SS else DS)"
| "DefaultSeg (Mem32 _ _ b _ _ _) = (if b = Some Esp \<or> b = Some Ebp then SS else DS)"

record Instruction =
  prefixes :: "PF1Elt list"
  mnem :: MnemElt
  operands :: "Operand list"

definition NumOps :: "Instruction \<Rightarrow> nat" where
  "NumOps instr = length (operands instr)"

section \<open>Abstract operand types and their description language\<close>

text \<open>
  Modelled from the spec: the enumeration \<open>AOTElt\<close> (X86InternalOperand.py) and the classes of
  the description language (X86InternalOperandDescriptions.py) are not among the sources.  The
  node kinds and their fields are the ones the type checker and the encoder read: \<open>Exact.value\<close>,
  \<open>ExactSeg.value\<close>, \<open>GPart.archetype\<close>, \<open>RegOrMem.reg\<close> and \<open>RegOrMem.mem\<close>,
  \<open>ImmEnc.archetype\<close>, \<open>SignedImm.archetype\<close>, and the \<open>yes\<close> and \<open>no\<close> members of
  \<open>SizePrefix\<close> and \<open>AddrPrefix\<close>.  The enumeration keeps the elements that the embedded rows of
  the encoding table and the type checker name.
\<close>

datatype AOTElt =
    OEb | OGb | OEv | OGv | OAL | OIb | OrAX | OIz | OIbv | OJz
  | OFPEnv | OFPEnvLow | OSimdState

datatype X86AOTDL =
    Exact Operand
  | ExactSeg Operand
  | GPart Register
  | RegOrMem "Register option" "MSElt option"
  | ImmEnc Operand
  | SignedImm Operand
  | SizePrefix X86AOTDL X86AOTDL
  | AddrPrefix X86AOTDL X86AOTDL

section \<open>Type checker (X86TypeChecker.py)\<close>

record TypeCheckInfo =
  sizeo :: "bool option"
  addro :: "bool option"
  sego :: "SegElt option"

definition TypeCheckInfo_new :: "bool option \<Rightarrow> bool option \<Rightarrow> SegElt option \<Rightarrow> TypeCheckInfo" where
  "TypeCheckInfo_new sz ad sg = \<lparr>sizeo = sz, addro = ad, sego = sg\<rparr>"

definition SizePFX :: "bool \<Rightarrow> TypeCheckInfo option \<Rightarrow> TypeCheckInfo" where
  "SizePFX b t = (case t of None \<Rightarrow> TypeCheckInfo_new (Some b) None None
                  | Some ti \<Rightarrow> ti\<lparr>sizeo := Some b\<rparr>)"

definition AddrPFX :: "bool \<Rightarrow> TypeCheckInfo option \<Rightarrow> TypeCheckInfo" where
  "AddrPFX b t = (case t of None \<Rightarrow> TypeCheckInfo_new None (Some b) None
                  | Some ti \<Rightarrow> ti\<lparr>addro := Some b\<rparr>)"

definition SegPFX :: "SegElt \<Rightarrow> TypeCheckInfo option \<Rightarrow> TypeCheckInfo" where
  "SegPFX s t = (case t of None \<Rightarrow> TypeCheckInfo_new None None (Some s)
                 | Some ti \<Rightarrow> ti\<lparr>sego := Some s\<rparr>)"

definition MATCHES :: TypeCheckInfo where
  "MATCHES = TypeCheckInfo_new None None None"

definition lenient_sizes :: "AOTElt set" where
  "lenient_sizes = {OFPEnv, OFPEnvLow, OSimdState}"



text \<open>
  \<open>AOTtoAOTDL\<close>, the table from abstract operand types to their descriptions, is declared in
  X86InternalOperandDescriptions.py and is a parameter \<open>T\<close> of everything that reads it.

  Modelled from the spec: the methods of the type checker keep the tests of the source, but the
  statement under each passing test is the exercise stub \<open>raise ExerciseError(...)\<close>, and
  \<open>visit_SizePrefix\<close> and \<open>visit_AddrPrefix\<close> are stubs as a whole.  What a passing test
  returns is taken from the docstring of the method and from the per-node checks of the spec:
  \<open>Exact\<close>, \<open>GPart\<close>, the register case of \<open>RegOrMem\<close>, the immediates, far pointers and jump
  targets return \<open>MATCHES()\<close>; a memory operand reports its segment when it differs from the
  default segment and the address override \<open>True\<close> iff it is a \<open>Mem16\<close>; \<open>ExactSeg\<close> reports the
  operand's segment when only the segment differs; \<open>SizePrefix\<close> tries \<open>yes\<close> and imposes
  \<open>size = True\<close>, else tries \<open>no\<close> with \<open>size = False\<close>, and \<open>AddrPrefix\<close> is analogous.
\<close>

definition mem_overrides :: "MemExpr \<Rightarrow> TypeCheckInfo" where
  "mem_overrides m =
     (let s_tc = (if Seg m \<noteq> DefaultSeg m then SegPFX (Seg m) None else MATCHES)
      in AddrPFX (is_Mem16 m) (Some s_tc))"

definition visit_Exact :: "Operand \<Rightarrow> Operand \<Rightarrow> TypeCheckInfo option" where
  "visit_Exact op v = (if op = v then Some MATCHES else None)"

definition visit_ExactSeg :: "Operand \<Rightarrow> Operand \<Rightarrow> TypeCheckInfo option" where
  "visit_ExactSeg op v =
     (if op = v then Some MATCHES
      else (case op of
              OMem m \<Rightarrow>
                (case v of
                   OMem a \<Rightarrow> if with_Seg a (Seg m) = m then Some (SegPFX (Seg m) None) else None
                 | _ \<Rightarrow> None)
            | _ \<Rightarrow> None))"

definition visit_RegOrMem ::
  "bool \<Rightarrow> Operand \<Rightarrow> Register option \<Rightarrow> MSElt option \<Rightarrow> TypeCheckInfo option" where
  "visit_RegOrMem check_sizes op reg mem =
     (if (case reg of None \<Rightarrow> False | Some r \<Rightarrow> type_Operand op = type_Register r)
      then Some MATCHES
      else (case mem of
              None \<Rightarrow> None
            | Some ms \<Rightarrow>
                (case op of
                   OMem m \<Rightarrow>
                     if ms = size_Mem m \<or> \<not> check_sizes then Some (mem_overrides m) else None
                 | _ \<Rightarrow> None)))"

definition visit_GPart :: "Operand \<Rightarrow> Register \<Rightarrow> TypeCheckInfo option" where
  "visit_GPart op archetype =
     (if type_Operand op = type_Register archetype then Some MATCHES else None)"

definition visit_Immediate_MemExpr :: "Operand \<Rightarrow> MemExpr \<Rightarrow> TypeCheckInfo option" where
  "visit_Immediate_MemExpr op archetype =
     (case op of
        OMem m \<Rightarrow>
          if no_BaseReg_IndexReg m
          then (if size_Mem archetype = size_Mem m then Some (mem_overrides m) else None)
          else None
      | _ \<Rightarrow> None)"

definition visit_Immediate_FarTarget :: "Operand \<Rightarrow> FarTarget \<Rightarrow> TypeCheckInfo option" where
  "visit_Immediate_FarTarget op archetype =
     (if type_Operand op = type_Operand (OFar archetype) then Some MATCHES else None)"

definition visit_Immediate_JccTarget :: "Operand \<Rightarrow> TypeCheckInfo option" where
  "visit_Immediate_JccTarget op =
     (case op of JccTarget _ _ \<Rightarrow> Some MATCHES | _ \<Rightarrow> None)"

definition visit_Immediate_Immediate :: "Operand \<Rightarrow> Immediate \<Rightarrow> TypeCheckInfo option" where
  "visit_Immediate_Immediate op archetype =
     (if type_Operand op = type_Operand (OImm archetype) then Some MATCHES else None)"

definition visit_SignExtImm_Iw :: "Operand \<Rightarrow> TypeCheckInfo option" where
  "visit_SignExtImm_Iw op =
     (case op of
        OImm (Iw v) \<Rightarrow> if v < 0x80 \<or> v \<ge> 0xFF80 then Some MATCHES else None
      | _ \<Rightarrow> None)"

definition visit_SignExtImm_Id :: "Operand \<Rightarrow> TypeCheckInfo option" where
  "visit_SignExtImm_Id op =
     (case op of
        OImm (Id_imm v) \<Rightarrow> if v < 0x80 \<or> v \<ge> 0xFFFFFF80 then Some MATCHES else None
      | _ \<Rightarrow> None)"

text \<open>
  \<open>visit\<close> of the type checker: \<open>MakeMethodName\<close> picks the method from the class of the
  description and, for \<open>ImmEnc\<close> and \<open>SignedImm\<close>, from the class of the archetype; a
  combination without a method goes to \<open>Default\<close>, which returns \<open>None\<close>.  The first argument is
  the member \<open>check_sizes\<close> that \<open>check\<close> has set.
\<close>

fun tc_visit :: "bool \<Rightarrow> Operand \<Rightarrow> X86AOTDL \<Rightarrow> TypeCheckInfo option" where
  "tc_visit cs op (SizePrefix yes no) =
     (case tc_visit cs op yes of
        Some t \<Rightarrow> Some (SizePFX True (Some t))
      | None \<Rightarrow>
          (case tc_visit cs op no of
             Some t \<Rightarrow> Some (SizePFX False (Some t))
           | None \<Rightarrow> None))"
| "tc_visit cs op (AddrPrefix yes no) =
     (case tc_visit cs op yes of
        Some t \<Rightarrow> Some (AddrPFX True (Some t))
      | None \<Rightarrow>
          (case tc_visit cs op no of
             Some t \<Rightarrow> Some (AddrPFX False (Some t))
           | None \<Rightarrow> None))"
| "tc_visit cs op (Exact v) = visit_Exact op v"
| "tc_visit cs op (ExactSeg v) = visit_ExactSeg op v"
| "tc_visit cs op (GPart a) = visit_GPart op a"
| "tc_visit cs op (RegOrMem reg mem) = visit_RegOrMem cs op reg mem"
| "tc_visit cs op (ImmEnc (OMem a)) = visit_Immediate_MemExpr op a"
| "tc_visit cs op (ImmEnc (OFar a)) = visit_Immediate_FarTarget op a"
| "tc_visit cs op (ImmEnc (OImm a)) = visit_Immediate_Immediate op a"
| "tc_visit cs op (ImmEnc (JccTarget _ _)) = visit_Immediate_JccTarget op"
| "tc_visit cs op (ImmEnc (OReg _)) = None"
| "tc_visit cs op (SignedImm (JccTarget _ _)) = visit_Immediate_JccTarget op"
| "tc_visit cs op (SignedImm (OImm (Iw _))) = visit_SignExtImm_Iw op"
| "tc_visit cs op (SignedImm (OImm (Id_imm _))) = visit_SignExtImm_Id op"
| "tc_visit cs op (SignedImm _) = None"

definition check :: "(AOTElt \<Rightarrow> X86AOTDL) \<Rightarrow> AOTElt \<Rightarrow> Operand \<Rightarrow> TypeCheckInfo option" where
  "check T aop opnd = tc_visit (aop \<notin> lenient_sizes) opnd (T aop)"

definition opcheck :: "'a option \<Rightarrow> 'a option \<Rightarrow> string \<Rightarrow> error + 'a option" where
  "opcheck bo1 bo2 errorstr =
     (case bo1 of
        None \<Rightarrow> Inr bo2
      | Some x \<Rightarrow>
          (case bo2 of
             None \<Rightarrow> Inr bo1
           | Some y \<Rightarrow> if x = y then Inr bo1 else Inl (X86TypeCheckError errorstr)))"

definition reduce_typeinfo :: "TypeCheckInfo \<Rightarrow> TypeCheckInfo \<Rightarrow> error + TypeCheckInfo" where
  "reduce_typeinfo t1 t2 =
     (case opcheck (sizeo t1) (sizeo t2) ''Size mismatch!'' of
        Inl e \<Rightarrow> Inl e
      | Inr sz \<Rightarrow>
          (case opcheck (addro t1) (addro t2) ''Address size mismatch!'' of
             Inl e \<Rightarrow> Inl e
           | Inr ad \<Rightarrow>
               (case opcheck (sego t1) (sego t2) ''Segments clash!'' of
                  Inl e \<Rightarrow> Inl e
                | Inr sg \<Rightarrow> Inr (t1\<lparr>sizeo := sz, addro := ad, sego := sg\<rparr>))))"

text \<open>
  The loop of \<open>TypeCheckInstruction_exn\<close> over \<open>i\<close> in \<open>range(len(aops))\<close>, with \<open>last_ti\<close> as
  its accumulator; the second list holds the operands \<open>instr.GetOp(i)\<close> still to come.
\<close>

fun tc_loop ::
  "(AOTElt \<Rightarrow> X86AOTDL) \<Rightarrow> TypeCheckInfo option \<Rightarrow> AOTElt list \<Rightarrow> Operand list
     \<Rightarrow> error + TypeCheckInfo option" where
  "tc_loop T last_ti [] ops = Inr last_ti"
| "tc_loop T last_ti (a # aops) [] = Inl IndexError"
| "tc_loop T last_ti (a # aops) (op # ops) =
     (case check T a op of
        None \<Rightarrow> Inl (X86TypeCheckError ''Operand does not match!'')
      | Some ti \<Rightarrow>
          (case last_ti of
             None \<Rightarrow> tc_loop T (Some ti) aops ops
           | Some l \<Rightarrow>
               (case reduce_typeinfo l ti of
                  Inl e \<Rightarrow> Inl e
                | Inr r \<Rightarrow> tc_loop T (Some r) aops ops)))"

definition TypeCheckInstruction_exn ::
  "(AOTElt \<Rightarrow> X86AOTDL) \<Rightarrow> Instruction \<Rightarrow> AOTElt list \<Rightarrow> error + (bool \<times> bool \<times> SegElt option)" where
  "TypeCheckInstruction_exn T instr aops =
     (if length aops \<noteq> NumOps instr then Inl (X86TypeCheckError ''Operand lengths differ!'')
      else if length aops = 0 then Inr (False, False, None)
      else (case tc_loop T None aops (operands instr) of
              Inl e \<Rightarrow> Inl e
            | Inr None \<Rightarrow> Inl AttributeError
            | Inr (Some last_ti) \<Rightarrow>
                Inr (sizeo last_ti = Some True, addro last_ti = Some True, sego last_ti)))"

text \<open>Only \<open>X86TypeCheckError\<close> is caught; any other exception passes through.\<close>

definition TypeCheckInstruction_opt ::
  "(AOTElt \<Rightarrow> X86AOTDL) \<Rightarrow> Instruction \<Rightarrow> AOTElt list
     \<Rightarrow> error + (bool \<times> bool \<times> SegElt option) option" where
  "TypeCheckInstruction_opt T instr aops =
     (case TypeCheckInstruction_exn T instr aops of
        Inl (X86TypeCheckError _) \<Rightarrow> Inr None
      | Inl e \<Rightarrow> Inl e
      | Inr v \<Rightarrow> Inr (Some v))"

text \<open>
  The words of the spec for the reduction of one field \<open>f\<close> over the infos \<open>ts\<close> of the operands:
  \<open>constrained f ts\<close> are the concrete values reported, in operand order; there is a conflict when
  two of them differ; without a conflict the reduced field is unset when no operand constrained
  it and is the common value otherwise.
\<close>

definition constrained :: "(TypeCheckInfo \<Rightarrow> 'a option) \<Rightarrow> TypeCheckInfo list \<Rightarrow> 'a list" where
  "constrained f ts = List.map_filter f ts"

definition conflict :: "(TypeCheckInfo \<Rightarrow> 'a option) \<Rightarrow> TypeCheckInfo list \<Rightarrow> bool" where
  "conflict f ts = (\<exists>x \<in> set (constrained f ts). \<exists>y \<in> set (constrained f ts). x \<noteq> y)"

definition reduced :: "(TypeCheckInfo \<Rightarrow> 'a option) \<Rightarrow> TypeCheckInfo list \<Rightarrow> 'a option" where
  "reduced f ts = (case constrained f ts of [] \<Rightarrow> None | v # _ \<Rightarrow> Some v)"



definition any_conflict :: "TypeCheckInfo list \<Rightarrow> bool" where
  "any_conflict ts = (conflict sizeo ts \<or> conflict addro ts \<or> conflict sego ts)"

definition reduced_info :: "TypeCheckInfo list \<Rightarrow> TypeCheckInfo" where
  "reduced_info ts = \<lparr>sizeo = reduced sizeo ts, addro = reduced addro ts, sego = reduced sego ts\<rparr>"

text \<open>
  The memory sizes that a description built from \<open>RegOrMem\<close> nodes (directly, or under
  \<open>SizePrefix\<close> and \<open>AddrPrefix\<close>) accepts, and the test that a description is of this kind.
\<close>

fun mem_sizes :: "X86AOTDL \<Rightarrow> MSElt list" where
  "mem_sizes (RegOrMem reg (Some ms)) = [ms]"
| "mem_sizes (SizePrefix yes no) = mem_sizes yes @ mem_sizes no"
| "mem_sizes (AddrPrefix yes no) = mem_sizes yes @ mem_sizes no"
| "mem_sizes _ = []"

fun only_RegOrMem :: "X86AOTDL \<Rightarrow> bool" where
  "only_RegOrMem (RegOrMem reg mem) = True"
| "only_RegOrMem (SizePrefix yes no) = (only_RegOrMem yes \<and> only_RegOrMem no)"
| "only_RegOrMem (AddrPrefix yes no) = (only_RegOrMem yes \<and> only_RegOrMem no)"
| "only_RegOrMem _ = False"

text \<open>
  Modelled from the spec: the rows of \<open>AOTtoAOTDL\<close> (X86InternalOperandDescriptions.py, not
  among the sources) for the abstract operand types kept in \<open>AOTElt\<close>, used where a theorem
  runs the code on a concrete instruction.  The spec: \<open>Eb\<close> is r/m 8, \<open>Gv\<close> is reg 16/32, \<open>Iz\<close>
  is imm 16/32; \<open>SizePrefix(yes, no)\<close> has the 16-bit form under \<open>yes\<close>; \<open>Ibv\<close> is the
  sign-extended imm8 widened to 16/32 bits; \<open>Jz\<close> is a near jump target; \<open>FPEnv\<close>,
  \<open>FPEnvLow\<close> and \<open>SimdState\<close> are memory-only.
\<close>

fun AOTtoAOTDL_spec :: "AOTElt \<Rightarrow> X86AOTDL" where
  "AOTtoAOTDL_spec OEb = RegOrMem (Some (Gb Al)) (Some Mb)"
| "AOTtoAOTDL_spec OGb = GPart (Gb Al)"
| "AOTtoAOTDL_spec OEv =
     SizePrefix (RegOrMem (Some (Gw Ax)) (Some Mw)) (RegOrMem (Some (Gd Eax)) (Some Md))"
| "AOTtoAOTDL_spec OGv = SizePrefix (GPart (Gw Ax)) (GPart (Gd Eax))"
| "AOTtoAOTDL_spec OAL = Exact (OReg (Gb Al))"
| "AOTtoAOTDL_spec OIb = ImmEnc (OImm (Ib 0))"
| "AOTtoAOTDL_spec OrAX = SizePrefix (Exact (OReg (Gw Ax))) (Exact (OReg (Gd Eax)))"
| "AOTtoAOTDL_spec OIz = SizePrefix (ImmEnc (OImm (Iw 0))) (ImmEnc (OImm (Id_imm 0)))"
| "AOTtoAOTDL_spec OIbv = SizePrefix (SignedImm (OImm (Iw 0))) (SignedImm (OImm (Id_imm 0)))"
| "AOTtoAOTDL_spec OJz = ImmEnc (JccTarget 0 0)"
| "AOTtoAOTDL_spec OFPEnv = RegOrMem None (Some Md)"
| "AOTtoAOTDL_spec OFPEnvLow = RegOrMem None (Some Md)"
| "AOTtoAOTDL_spec OSimdState = RegOrMem None (Some Md)"

section \<open>Encoding table (X86EncodeTable.py)\<close>

datatype X86Enc =
    Ordinary "int list" "AOTElt list"
  | Native16 "int list" "AOTElt list"
  | ModRMGroup int "int list" "AOTElt list"

fun enc_bytes :: "X86Enc \<Rightarrow> int list" where
  "enc_bytes (Ordinary bs ops) = bs"
| "enc_bytes (Native16 bs ops) = bs"
| "enc_bytes (ModRMGroup ggg bs ops) = bs"

fun enc_ops :: "X86Enc \<Rightarrow> AOTElt list" where
  "enc_ops (Ordinary bs ops) = ops"
| "enc_ops (Native16 bs ops) = ops"
| "enc_ops (ModRMGroup ggg bs ops) = ops"

definition eEbGb :: "AOTElt list" where "eEbGb = [OEb, OGb]"
definition eEvGv :: "AOTElt list" where "eEvGv = [OEv, OGv]"
definition eGbEb :: "AOTElt list" where "eGbEb = [OGb, OEb]"
definition eGvEv :: "AOTElt list" where "eGvEv = [OGv, OEv]"
definition eALIb :: "AOTElt list" where "eALIb = [OAL, OIb]"
definition erAXIz :: "AOTElt list" where "erAXIz = [OrAX, OIz]"
definition eEbIb :: "AOTElt list" where "eEbIb = [OEb, OIb]"
definition eEvIz :: "AOTElt list" where "eEvIz = [OEv, OIz]"
definition eEvIbv :: "AOTElt list" where "eEvIbv = [OEv, OIbv]"
definition eEv :: "AOTElt list" where "eEv = [OEv]"
definition eNone :: "AOTElt list" where "eNone = []"

text \<open>
  The table is created as \<open>[None]*(X86_LAST_MNEMONIC+1)\<close> and the rows are then assigned
  mnemonic by mnemonic: a mnemonic without an assignment keeps the entry \<open>None\<close>.
\<close>

fun mnem_to_encodings :: "MnemElt \<Rightarrow> X86Enc list option" where
  "mnem_to_encodings Daa = Some [Ordinary [0x27] eNone]"
| "mnem_to_encodings Das = Some [Ordinary [0x2F] eNone]"
| "mnem_to_encodings Aaa = Some [Ordinary [0x37] eNone]"
| "mnem_to_encodings Aas = Some [Ordinary [0x3F] eNone]"
| "mnem_to_encodings Add = Some [
     Ordinary [0x00] eEbGb,
     Ordinary [0x01] eEvGv,
     Ordinary [0x02] eGbEb,
     Ordinary [0x03] eGvEv,
     Ordinary [0x04] eALIb,
     Ordinary [0x05] erAXIz,
     ModRMGroup 0 [0x80] eEbIb,
     ModRMGroup 0 [0x81] eEvIz,
     ModRMGroup 0 [0x83] eEvIbv]"
| "mnem_to_encodings Pushaw = Some [Native16 [0x60] eNone]"
| "mnem_to_encodings Pushad = Some [Ordinary [0x60] eNone]"
| "mnem_to_encodings Jmp = Some [
     Ordinary [0xE9] [OJz],
     ModRMGroup 4 [0xFF] eEv]"
| "mnem_to_encodings _ = None"

section \<open>Encoder (X86Encoder.py)\<close>

fun PrefixOfSeg :: "SegElt \<Rightarrow> int" where
  "PrefixOfSeg CS = 0x2E"
| "PrefixOfSeg SS = 0x36"
| "PrefixOfSeg DS = 0x3E"
| "PrefixOfSeg ES = 0x26"
| "PrefixOfSeg FS = 0x64"
| "PrefixOfSeg GS = 0x65"

text \<open>
  Modelled from the spec: the module X86ModRM.py (\<open>ModRM16\<close>, \<open>ModRM32\<close>,
  \<open>little_endian_bytes\<close>) is not among the sources.  A ModR/M object is kept as its three
  fields \<open>MOD\<close>, \<open>GGG\<close>, \<open>RM\<close> and the bytes that follow the ModR/M byte (SIB and
  displacement); \<open>Encode\<close> gives the byte \<open>MOD|REG|R/M\<close> of the glossary followed by them.
  \<open>EncodeFromParts\<close> of the two classes is a parameter \<open>M\<close> of the encoder: from the parts of a
  memory expression it gives \<open>MOD\<close>, \<open>RM\<close> and the bytes that follow, or raises.
  \<open>little_endian_bytes imm n\<close> are the \<open>n\<close> low bytes of \<open>imm\<close>, lowest first.
\<close>

record ModRM =
  MOD :: int
  GGG :: int
  RM :: int
  address_bytes :: "int list"

definition ModRM_new :: ModRM where
  "ModRM_new = \<lparr>MOD = 0, GGG = 0, RM = 0, address_bytes = []\<rparr>"

definition ModRM_Encode :: "ModRM \<Rightarrow> int list" where
  "ModRM_Encode m = ((push_bit 6 (MOD m)) OR (push_bit 3 (GGG m)) OR RM m) # address_bytes m"

record X86ModRM =
  EncodeFromParts16 ::
    "R16Elt option \<Rightarrow> R16Elt option \<Rightarrow> 16 word option \<Rightarrow> error + (int \<times> int \<times> int list)"
  EncodeFromParts32 ::
    "R32Elt option \<Rightarrow> R32Elt option \<Rightarrow> nat \<Rightarrow> 32 word option \<Rightarrow> error + (int \<times> int \<times> int list)"

definition little_endian_bytes :: "int \<Rightarrow> nat \<Rightarrow> int list" where
  "little_endian_bytes imm n = map (\<lambda>i. (drop_bit (8 * i) imm) AND 0xFF) [0..<n]"

text \<open>
  The state of an encoder object.  \<open>group1pfx\<close> is appended to the output as it is stored, so
  the field holds the list element that would be emitted; \<open>modrm\<close> is the member \<open>_modrm\<close>.
\<close>

record X86Encoder =
  group1pfx :: "int option"
  stem :: "int list"
  segpfx :: "SegElt option"
  addrpfx :: bool
  sizepfx :: bool
  immediates :: "int list"
  modrm :: "ModRM option"
  addr :: int

definition Reset :: "X86Encoder \<Rightarrow> X86Encoder" where
  "Reset s = s\<lparr>group1pfx := None, stem := [], segpfx := None, addrpfx := False,
               sizepfx := False, immediates := [], modrm := None\<rparr>"

definition X86Encoder_new :: X86Encoder where
  "X86Encoder_new =
     (Reset \<lparr>group1pfx = None, stem = [], segpfx = None, addrpfx = False, sizepfx = False,
             immediates = [], modrm = None, addr = 0\<rparr>)\<lparr>addr := 0\<rparr>"

text \<open>The property \<open>ModRM\<close>: the object is created the first time it is read.\<close>

definition get_ModRM :: "X86Encoder \<Rightarrow> ModRM \<times> X86Encoder" where
  "get_ModRM s =
     (case modrm s of
        None \<Rightarrow> (ModRM_new, s\<lparr>modrm := Some ModRM_new\<rparr>)
      | Some m \<Rightarrow> (m, s))"

definition AppendImmediate :: "X86Encoder \<Rightarrow> int \<Rightarrow> nat \<Rightarrow> X86Encoder" where
  "AppendImmediate s imm n = s\<lparr>immediates := immediates s @ little_endian_bytes imm n\<rparr>"

text \<open>
  \<open>visit_Immediate_JccTarget\<close> of the encoder, the one visiting method that is not a stub.  The
  \<open>raise\<close> statement formats its message from the name \<open>jcc\<close>, which the method does not bind
  (its parameter is \<open>op\<close>): evaluating the argument raises \<open>NameError\<close> before
  \<open>X86EncoderError\<close> is constructed.
\<close>

definition enc_visit_Immediate_JccTarget :: "X86Encoder \<Rightarrow> Operand \<Rightarrow> error + X86Encoder" where
  "enc_visit_Immediate_JccTarget s op =
     (case op of
        JccTarget taken not_taken \<Rightarrow>
          (let dest = uint taken in
           if addrpfx s \<and> dest > 0xFFFF then Inl (NameError ''jcc'')
           else
             (let instrlen = of_bool (segpfx s \<noteq> None) + of_bool (sizepfx s = True);
                  instrlen = instrlen + (of_bool (addrpfx s = True) + int (length (stem s)) + 4);
                  displacement = (dest - (addr s + instrlen)) AND 0xFFFFFFFF
              in Inr (AppendImmediate s displacement (if addrpfx s then 2 else 4))))
      | _ \<Rightarrow> Inl AttributeError)"

text \<open>
  Modelled from the spec: the other visiting methods of the encoder and the \<open>Encode\<close> methods
  of the encoding classes are exercise stubs (\<open>raise ExerciseError(...)\<close>); their bodies follow
  their docstrings.  \<open>Exact\<close> and \<open>ExactSeg\<close> encode nothing; \<open>GPart\<close> stores the register number
  in \<open>GGG\<close>; a register under \<open>RegOrMem\<close> sets \<open>MOD\<close> to 3 and \<open>RM\<close> to the register number; a
  memory under \<open>RegOrMem\<close> calls \<open>EncodeFromParts\<close>; a memory under \<open>ImmEnc\<close> writes its
  displacement in 2 or 4 bytes; a far pointer writes its offset and then its 2-byte segment;
  \<open>Ib\<close>, \<open>Iw\<close>, \<open>Id\<close> write the value in 1, 2, 4 bytes; \<open>SizePrefix\<close> and \<open>AddrPrefix\<close> visit
  the child that the prefix selects.  \<open>Ordinary.Encode\<close> changes nothing, \<open>Native16.Encode\<close>
  sets \<open>sizepfx\<close>, \<open>ModRMGroup.Encode\<close> sets \<open>GGG\<close>.  An operand of a class for which the
  selected method has no meaning (it cannot pass the type checker) ends with \<open>AttributeError\<close>.
\<close>

definition enc_visit_GPart :: "X86Encoder \<Rightarrow> Operand \<Rightarrow> error + X86Encoder" where
  "enc_visit_GPart s op =
     (case op of
        OReg r \<Rightarrow>
          (case get_ModRM s of (m, s1) \<Rightarrow> Inr (s1\<lparr>modrm := Some (m\<lparr>GGG := IntValue_Register r\<rparr>)\<rparr>))
      | _ \<Rightarrow> Inl AttributeError)"

definition enc_visit_RegOrMem_Register :: "X86Encoder \<Rightarrow> Register \<Rightarrow> error + X86Encoder" where
  "enc_visit_RegOrMem_Register s r =
     (case get_ModRM s of
        (m, s1) \<Rightarrow> Inr (s1\<lparr>modrm := Some (m\<lparr>MOD := 3, RM := IntValue_Register r\<rparr>)\<rparr>))"

definition enc_visit_RegOrMem_Mem ::
  "X86ModRM \<Rightarrow> X86Encoder \<Rightarrow> MemExpr \<Rightarrow> error + X86Encoder" where
  "enc_visit_RegOrMem_Mem M s mem =
     (case get_ModRM s of
        (m, s1) \<Rightarrow>
          (case (case mem of
                   Mem16 sg sz b i d \<Rightarrow> EncodeFromParts16 M b i d
                 | Mem32 sg sz b i sc d \<Rightarrow> EncodeFromParts32 M b i sc d) of
             Inl e \<Rightarrow> Inl e
           | Inr (md, rm, bs) \<Rightarrow>
               Inr (s1\<lparr>modrm := Some (m\<lparr>MOD := md, RM := rm, address_bytes := bs\<rparr>)\<rparr>)))"

definition enc_visit_Immediate_MemExpr :: "X86Encoder \<Rightarrow> Operand \<Rightarrow> error + X86Encoder" where
  "enc_visit_Immediate_MemExpr s op =
     (case op of
        OMem (Mem16 sg sz b i (Some d)) \<Rightarrow> Inr (AppendImmediate s (uint d) 2)
      | OMem (Mem32 sg sz b i sc (Some d)) \<Rightarrow> Inr (AppendImmediate s (uint d) 4)
      | OMem _ \<Rightarrow> Inl TypeError
      | _ \<Rightarrow> Inl AttributeError)"

definition enc_visit_Immediate_FarTarget :: "X86Encoder \<Rightarrow> Operand \<Rightarrow> error + X86Encoder" where
  "enc_visit_Immediate_FarTarget s op =
     (case op of
        OFar (AP16 sg off) \<Rightarrow> Inr (AppendImmediate (AppendImmediate s (uint off) 2) (uint sg) 2)
      | OFar (AP32 sg off) \<Rightarrow> Inr (AppendImmediate (AppendImmediate s (uint off) 4) (uint sg) 2)
      | _ \<Rightarrow> Inl AttributeError)"

fun Immediate_value :: "Immediate \<Rightarrow> int" where
  "Immediate_value (Ib v) = uint v"
| "Immediate_value (Iw v) = uint v"
| "Immediate_value (Id_imm v) = uint v"

definition enc_visit_Immediate_n :: "nat \<Rightarrow> X86Encoder \<Rightarrow> Operand \<Rightarrow> error + X86Encoder" where
  "enc_visit_Immediate_n n s op =
     (case op of
        OImm i \<Rightarrow> Inr (AppendImmediate s (Immediate_value i) n)
      | _ \<Rightarrow> Inl AttributeError)"

text \<open>
  \<open>visit\<close> of the encoder, with the method that \<open>MakeMethodName\<close> selects: for \<open>ImmEnc\<close> by the
  class of the archetype, for \<open>RegOrMem\<close> by the class of the operand, for \<open>SignedImm\<close> the
  jump-target method or the one-byte method.
\<close>

fun enc_visit :: "X86ModRM \<Rightarrow> X86Encoder \<Rightarrow> Operand \<Rightarrow> X86AOTDL \<Rightarrow> error + X86Encoder" where
  "enc_visit M s op (SizePrefix yes no) =
     (if sizepfx s then enc_visit M s op yes else enc_visit M s op no)"
| "enc_visit M s op (AddrPrefix yes no) =
     (if addrpfx s then enc_visit M s op yes else enc_visit M s op no)"
| "enc_visit M s op (Exact v) = Inr s"
| "enc_visit M s op (ExactSeg v) = Inr s"
| "enc_visit M s op (GPart g) = enc_visit_GPart s op"
| "enc_visit M s op (RegOrMem reg mem) =
     (case op of
        OReg r \<Rightarrow> enc_visit_RegOrMem_Register s r
      | OMem m \<Rightarrow> enc_visit_RegOrMem_Mem M s m
      | _ \<Rightarrow> Inl AttributeError)"
| "enc_visit M s op (ImmEnc (OMem a)) = enc_visit_Immediate_MemExpr s op"
| "enc_visit M s op (ImmEnc (OFar a)) = enc_visit_Immediate_FarTarget s op"
| "enc_visit M s op (ImmEnc (OImm (Ib a))) = enc_visit_Immediate_n 1 s op"
| "enc_visit M s op (ImmEnc (OImm (Iw a))) = enc_visit_Immediate_n 2 s op"
| "enc_visit M s op (ImmEnc (OImm (Id_imm a))) = enc_visit_Immediate_n 4 s op"
| "enc_visit M s op (ImmEnc (JccTarget t n)) = enc_visit_Immediate_JccTarget s op"
| "enc_visit M s op (ImmEnc (OReg r)) = Inl AttributeError"
| "enc_visit M s op (SignedImm (JccTarget t n)) = enc_visit_Immediate_JccTarget s op"
| "enc_visit M s op (SignedImm a) = enc_visit_Immediate_n 1 s op"

fun Encode :: "X86Enc \<Rightarrow> X86Encoder \<Rightarrow> X86Encoder" where
  "Encode (Ordinary bs ops) s = s"
| "Encode (Native16 bs ops) s = s\<lparr>sizepfx := True\<rparr>"
| "Encode (ModRMGroup ggg bs ops) s =
     (case get_ModRM s of (m, s1) \<Rightarrow> s1\<lparr>modrm := Some (m\<lparr>GGG := ggg\<rparr>)\<rparr>)"

text \<open>The loop \<open>for i in xrange(len(enc.ops))\<close> over the operands of the instruction.\<close>

fun visit_operands ::
  "(AOTElt \<Rightarrow> X86AOTDL) \<Rightarrow> X86ModRM \<Rightarrow> X86Encoder \<Rightarrow> AOTElt list \<Rightarrow> Operand list
     \<Rightarrow> error + X86Encoder" where
  "visit_operands T M s [] ops = Inr s"
| "visit_operands T M s (a # aops) [] = Inl IndexError"
| "visit_operands T M s (a # aops) (op # ops) =
     (case enc_visit M s op (T a) of
        Inl e \<Rightarrow> Inl e
      | Inr s1 \<Rightarrow> visit_operands T M s1 aops ops)"

text \<open>Lines 102 to 121 of \<open>EncodeInstruction\<close>: the byte list collected from the state.\<close>

definition collect :: "X86Encoder \<Rightarrow> int list" where
  "collect s =
     (case segpfx s of None \<Rightarrow> [] | Some sg \<Rightarrow> [PrefixOfSeg sg])
     @ (if addrpfx s then [0x67] else [])
     @ (if sizepfx s then [0x66] else [])
     @ (case group1pfx s of None \<Rightarrow> [] | Some p \<Rightarrow> [p])
     @ stem s
     @ (case modrm s of None \<Rightarrow> [] | Some m \<Rightarrow> ModRM_Encode m)
     @ immediates s"

text \<open>
  The body of the loop of \<open>EncodeInstruction\<close> for a candidate that matched with the result
  \<open>val\<close> of the type checker: the state after the operands were visited.
\<close>

definition encode_with ::
  "(AOTElt \<Rightarrow> X86AOTDL) \<Rightarrow> X86ModRM \<Rightarrow> X86Encoder \<Rightarrow> Instruction \<Rightarrow> X86Enc
     \<Rightarrow> bool \<times> bool \<times> SegElt option \<Rightarrow> error + X86Encoder" where
  "encode_with T M s instr enc val =
     (case val of
        (sz, ad, sg) \<Rightarrow>
          visit_operands T M
            (Encode enc (s\<lparr>sizepfx := sz, addrpfx := ad, segpfx := sg, stem := enc_bytes enc\<rparr>))
            (enc_ops enc) (operands instr))"

fun encode_loop ::
  "(AOTElt \<Rightarrow> X86AOTDL) \<Rightarrow> X86ModRM \<Rightarrow> X86Encoder \<Rightarrow> Instruction \<Rightarrow> X86Enc list
     \<Rightarrow> error + X86Encoder" where
  "encode_loop T M s instr [] = Inl InvalidInstruction"
| "encode_loop T M s instr (enc # encs) =
     (case TypeCheckInstruction_opt T instr (enc_ops enc) of
        Inl e \<Rightarrow> Inl e
      | Inr None \<Rightarrow> encode_loop T M s instr encs
      | Inr (Some val) \<Rightarrow> encode_with T M s instr enc val)"

text \<open>
  \<open>EncodeInstruction\<close> up to the state from which the bytes are collected.  The \<open>for\<close>
  statement iterates over the entry of the mnemonic; over the entry \<open>None\<close> of a mnemonic
  without a row it raises \<open>TypeError\<close>.
\<close>

definition EncodeInstruction_state ::
  "(AOTElt \<Rightarrow> X86AOTDL) \<Rightarrow> X86ModRM \<Rightarrow> X86Encoder \<Rightarrow> Instruction \<Rightarrow> int \<Rightarrow> error + X86Encoder" where
  "EncodeInstruction_state T M self instr a =
     (case mnem_to_encodings (mnem instr) of
        None \<Rightarrow> Inl TypeError
      | Some encs \<Rightarrow> encode_loop T M ((Reset self)\<lparr>addr := a\<rparr>) instr encs)"

definition EncodeInstruction ::
  "(AOTElt \<Rightarrow> X86AOTDL) \<Rightarrow> X86ModRM \<Rightarrow> X86Encoder \<Rightarrow> Instruction \<Rightarrow> int \<Rightarrow> error + int list" where
  "EncodeInstruction T M self instr a =
     (case EncodeInstruction_state T M self instr a of
        Inl e \<Rightarrow> Inl e
      | Inr s \<Rightarrow> Inr (collect s))"



text \<open>A candidate encoding type-checks when \<open>TypeCheckInstruction_opt\<close> returns a triple for it.\<close>

definition type_checks :: "(AOTElt \<Rightarrow> X86AOTDL) \<Rightarrow> Instruction \<Rightarrow> X86Enc \<Rightarrow> bool" where
  "type_checks T instr enc =
     (case TypeCheckInstruction_opt T instr (enc_ops enc) of
        Inr (Some val) \<Rightarrow> True
      | _ \<Rightarrow> False)"

definition type_check_val ::
  "(AOTElt \<Rightarrow> X86AOTDL) \<Rightarrow> Instruction \<Rightarrow> X86Enc \<Rightarrow> bool \<times> bool \<times> SegElt option" where
  "type_check_val T instr enc =
     (case TypeCheckInstruction_opt T instr (enc_ops enc) of
        Inr (Some val) \<Rightarrow> val
      | _ \<Rightarrow> (False, False, None))"

section \<open>Memory expressions (X86Internal.py)\<close>



text \<open>
  A Python value passed to \<open>MemExpr.init\<close> as base or index register: \<open>None\<close>, an integer, an
  enumeration element of the register type, or an object of any other class.  The register
  type itself (a class made by Pandemic/Util/Enumerate.py, not among the sources) is the
  parameter \<open>regtype\<close>: applied to a value it constructs an element or raises.
\<close>

datatype 'r reg_arg = RNone | RInt int | RElt 'r | ROther







fun is_Native16 :: "X86Enc \<Rightarrow> bool" where
  "is_Native16 (Native16 bs ops) = True"
| "is_Native16 _ = False"

text \<open>Two encoder states with the same stem and the same prefix members.\<close>

definition same_frame :: "X86Encoder \<Rightarrow> X86Encoder \<Rightarrow> bool" where
  "same_frame s s' =
     (stem s' = stem s \<and> segpfx s' = segpfx s \<and> addrpfx s' = addrpfx s
      \<and> sizepfx s' = sizepfx s \<and> group1pfx s' = group1pfx s)"


section \<open>Properties of the byte stream\<close>

lemma or_byte:
  fixes b0 b1 :: int
  assumes "0 \<le> b0" "b0 < 2 ^ n"
  shows "push_bit n b1 OR b0 = b0 + 2 ^ n * b1"
proof -
  have tb: "take_bit n b0 = b0"
    using assms by (simp add: take_bit_int_eq_self)
  have nb: "\<not> bit b0 m" if "n \<le> m" for m
  proof
    assume "bit b0 m"
    then have "bit (take_bit n b0) m" by (simp add: tb)
    then show False using that by (simp add: bit_take_bit_iff)
  qed
  have "push_bit n b1 OR b0 = push_bit n b1 + b0"
    by (rule disjunctive_add [symmetric]) (auto simp: bit_push_bit_iff nb)
  also have "\<dots> = b0 + 2 ^ n * b1"
    by (simp add: push_bit_eq_mult)
  finally show ?thesis .
qed

lemma Byte_Inr: "Byte s = (Inr b, s') \<Longrightarrow> b \<in> set (bytes s) \<and> bytes s' = bytes s"
  by (auto simp: Byte_def GetByteInternal_def py_index_def split: if_splits sum.splits)

lemma Byte_Inl: "Byte s = (Inl e, s') \<Longrightarrow> s' = s"
  by (auto simp: Byte_def split: if_splits sum.splits)

text \<open>The length check of \<open>Byte\<close> fires exactly when 16 or more bytes were consumed before.\<close>

lemma Byte_InvalidInstruction_iff:
  "fst (Byte s) = Inl InvalidInstruction \<longleftrightarrow> pos s - origpos s \<ge> 16"
  by (auto simp: Byte_def GetByteInternal_def py_index_def split: sum.splits)

lemma Word_then_Byte:
  assumes "\<forall>b \<in> set (bytes s). 0 \<le> b \<and> b < 256"
  shows "Word s = then_Byte s (\<lambda>b0 s1. then_Byte s1 (\<lambda>b1 s2. (Inr (b0 + 2 ^ 8 * b1), s2)))"
proof (cases "Byte s")
  case (Pair r s1)
  show ?thesis
  proof (cases r)
    case (Inl e)
    with Pair show ?thesis by (simp add: Word_def then_Byte_def)
  next
    case (Inr b0)
    with Pair Byte_Inr have b0: "b0 \<in> set (bytes s)" by blast
    with assms have r: "0 \<le> b0" "b0 < 2 ^ 8" by auto
    show ?thesis using Pair Inr or_byte[OF r]
      by (auto simp: Word_def then_Byte_def split: prod.splits sum.splits)
  qed
qed

lemma Word_Inr:
  assumes "\<forall>b \<in> set (bytes s). 0 \<le> b \<and> b < 256" "Word s = (Inr w, s')"
  shows "0 \<le> w \<and> w < 2 ^ 16 \<and> bytes s' = bytes s"
proof -
  from assms(2) obtain b0 s1 b1 where
    1: "Byte s = (Inr b0, s1)" and 2: "Byte s1 = (Inr b1, s')" and w: "w = push_bit 8 b1 OR b0"
    by (auto simp: Word_def split: prod.splits sum.splits)
  from Byte_Inr[OF 1] have a: "b0 \<in> set (bytes s)" "bytes s1 = bytes s" by simp_all
  from Byte_Inr[OF 2] a have b: "b1 \<in> set (bytes s)" "bytes s' = bytes s" by simp_all
  from a b assms(1) have r: "0 \<le> b0" "b0 < 2 ^ 8" "0 \<le> b1" "b1 < 256" by auto
  have "w = b0 + 2 ^ 8 * b1" using or_byte[OF r(1,2)] w by simp
  with r b show ?thesis by auto
qed

lemma Dword_then_Byte:
  assumes "\<forall>b \<in> set (bytes s). 0 \<le> b \<and> b < 256"
  shows "Dword s =
     then_Byte s (\<lambda>b0 s1. then_Byte s1 (\<lambda>b1 s2. then_Byte s2 (\<lambda>b2 s3. then_Byte s3 (\<lambda>b3 s4.
       (Inr (b0 + 2 ^ 8 * b1 + 2 ^ 16 * b2 + 2 ^ 24 * b3), s4)))))"
proof (cases "Word s")
  case (Pair r s2)
  note W0 = Word_then_Byte[OF assms]
  show ?thesis
  proof (cases r)
    case (Inl e)
    with Pair W0 show ?thesis
      by (auto simp: Dword_def then_Byte_def split: prod.splits sum.splits)
  next
    case (Inr w0)
    with Pair Word_Inr[OF assms] have w0: "0 \<le> w0" "w0 < 2 ^ 16" and bs: "bytes s2 = bytes s"
      by blast+
    from bs assms have a2: "\<forall>b \<in> set (bytes s2). 0 \<le> b \<and> b < 256" by simp
    note W1 = Word_then_Byte[OF a2]
    have D: "Dword s = (case Word s2 of (Inl e, s4) \<Rightarrow> (Inl e, s4)
                 | (Inr w1, s4) \<Rightarrow> (Inr (w0 + 2 ^ 16 * w1), s4))"
      using Pair Inr or_byte[OF w0] by (auto simp: Dword_def split: prod.splits sum.splits)
    from Pair Inr W0 obtain b0 s1 b1 where
      1: "Byte s = (Inr b0, s1)" and 2: "Byte s1 = (Inr b1, s2)" and w: "w0 = b0 + 2 ^ 8 * b1"
      by (auto simp: then_Byte_def split: prod.splits sum.splits)
    show ?thesis unfolding D W1 using 1 2 w
      by (auto simp: then_Byte_def split: prod.splits sum.splits)
  qed
qed

text \<open>
  Claim C2 (the 15-byte cap).  The claim says that after \<open>SetPos\<close> the first 15 calls of \<open>Byte\<close>
  succeed and the call that would read the 16th byte raises \<open>InvalidInstruction\<close>.  The check in
  \<open>Byte\<close> is \<open>pos - origpos >= 16\<close>, made before the read: on a stream of 17 bytes the 16th
  call still returns a byte (here the value 16), and only the 17th call raises.
\<close>

theorem Byte_cap_off_by_one:
  "fst (Byte_n 17 (SetPos (StreamObj_new [1,2,3,4,5,6,7,8,9,10,11,12,13,14,15,16,17]) 0))
     = map Inr [1,2,3,4,5,6,7,8,9,10,11,12,13,14,15,16] @ [Inl InvalidInstruction]"
  by (simp add: numeral_nat Byte_def SetPos_def StreamObj_new_def Init_def GetByteInternal_def
      py_index_def)

text \<open>
  Claim C9 (\<open>Word\<close> and \<open>Dword\<close> are little-endian and composed of \<open>Byte\<close>).  On a stream whose
  elements are bytes (\<open>0 .. 255\<close>), \<open>Word\<close> is two successive calls of \<open>Byte\<close> and returns
  \<open>b0 + 2^8 * b1\<close>, the first byte being the low one; \<open>Dword\<close> is four successive calls of
  \<open>Byte\<close> and returns \<open>b0 + 2^8 * b1 + 2^16 * b2 + 2^24 * b3\<close>.  An exception of any of the
  calls of \<open>Byte\<close> is the outcome of the whole read.
\<close>

theorem Word_Dword_little_endian:
  assumes "\<forall>b \<in> set (bytes s). 0 \<le> b \<and> b < 256"
  shows "Word s = then_Byte s (\<lambda>b0 s1. then_Byte s1 (\<lambda>b1 s2. (Inr (b0 + 2 ^ 8 * b1), s2)))
    \<and> Dword s =
     then_Byte s (\<lambda>b0 s1. then_Byte s1 (\<lambda>b1 s2. then_Byte s2 (\<lambda>b2 s3. then_Byte s3 (\<lambda>b3 s4.
       (Inr (b0 + 2 ^ 8 * b1 + 2 ^ 16 * b2 + 2 ^ 24 * b3), s4)))))"
  using Word_then_Byte[OF assms] Dword_then_Byte[OF assms] by simp

theorem Word_Dword_little_endian_witness:
  "fst (Word (StreamObj_new [0x78, 0x56, 0x34, 0x12])) = Inr 0x5678 \<and>
   fst (Dword (StreamObj_new [0x78, 0x56, 0x34, 0x12])) = Inr 0x12345678 \<and>
   Pos (snd (Dword (StreamObj_new [0x78, 0x56, 0x34, 0x12]))) = 4"
proof -
  have h: "\<forall>b \<in> set (bytes (StreamObj_new [0x78, 0x56, 0x34, 0x12])). 0 \<le> b \<and> b < 256"
    by (simp add: StreamObj_new_def Init_def)
  show ?thesis
    using Word_Dword_little_endian[OF h]
    by (simp add: then_Byte_def Byte_def StreamObj_new_def Init_def GetByteInternal_def
        py_index_def Pos_def)
qed

section \<open>Properties of the type checker\<close>

lemma constrained_Cons:
  "constrained f (t # ts) = (case f t of None \<Rightarrow> constrained f ts | Some v \<Rightarrow> v # constrained f ts)"
  by (cases "f t") (simp_all add: constrained_def)

lemma constrained_Nil: "constrained f [] = []"
  by (simp add: constrained_def)

lemma conflict_set:
  "set (constrained f ts) = set (constrained f ts') \<Longrightarrow> conflict f ts = conflict f ts'"
  by (simp add: conflict_def)

lemma merge_head:
  assumes "f r = (case f acc of None \<Rightarrow> f t | Some x \<Rightarrow> Some x)"
    and "f acc = None \<or> f t = None \<or> f acc = f t"
  shows "set (constrained f (acc # t # rest)) = set (constrained f (r # rest))"
    and "reduced f (acc # t # rest) = reduced f (r # rest)"
  using assms by (auto simp: constrained_Cons reduced_def split: option.splits)

lemma clash_head:
  assumes "f acc = Some x" "f t = Some y" "x \<noteq> y"
  shows "conflict f (acc # t # rest)"
  using assms by (auto simp: conflict_def constrained_Cons)

lemma opcheck_Inr:
  "opcheck a b s = Inr r \<longleftrightarrow>
     (a = None \<or> b = None \<or> a = b) \<and> r = (case a of None \<Rightarrow> b | Some x \<Rightarrow> Some x)"
  by (auto simp: opcheck_def split: option.splits)

lemma opcheck_Inl:
  "opcheck a b s = Inl e \<longleftrightarrow> (\<exists>x y. a = Some x \<and> b = Some y \<and> x \<noteq> y) \<and> e = X86TypeCheckError s"
  by (auto simp: opcheck_def split: option.splits)

lemma reduce_typeinfo_ok:
  assumes "reduce_typeinfo acc t = Inr r"
  shows "any_conflict (acc # t # rest) = any_conflict (r # rest)"
    and "reduced_info (acc # t # rest) = reduced_info (r # rest)"
proof -
  from assms have
    sz: "sizeo acc = None \<or> sizeo t = None \<or> sizeo acc = sizeo t"
        "sizeo r = (case sizeo acc of None \<Rightarrow> sizeo t | Some x \<Rightarrow> Some x)" and
    ad: "addro acc = None \<or> addro t = None \<or> addro acc = addro t"
        "addro r = (case addro acc of None \<Rightarrow> addro t | Some x \<Rightarrow> Some x)" and
    sg: "sego acc = None \<or> sego t = None \<or> sego acc = sego t"
        "sego r = (case sego acc of None \<Rightarrow> sego t | Some x \<Rightarrow> Some x)"
    by (auto simp: reduce_typeinfo_def opcheck_Inr split: sum.splits)
  note m1 = merge_head[where f=sizeo, OF sz(2) sz(1)]
  note m2 = merge_head[where f=addro, OF ad(2) ad(1)]
  note m3 = merge_head[where f=sego, OF sg(2) sg(1)]
  show "any_conflict (acc # t # rest) = any_conflict (r # rest)"
    unfolding any_conflict_def
    using conflict_set[OF m1(1)] conflict_set[OF m2(1)] conflict_set[OF m3(1)] by simp
  show "reduced_info (acc # t # rest) = reduced_info (r # rest)"
    unfolding reduced_info_def using m1(2) m2(2) m3(2) by simp
qed

lemma reduce_typeinfo_clash:
  assumes "reduce_typeinfo acc t = Inl e"
  shows "any_conflict (acc # t # rest) \<and> (\<exists>msg. e = X86TypeCheckError msg)"
  using assms unfolding reduce_typeinfo_def any_conflict_def
  by (auto simp: opcheck_Inl opcheck_Inr split: sum.splits intro: clash_head)

lemma single_no_conflict: "\<not> any_conflict [t]"
  by (auto simp: any_conflict_def conflict_def constrained_Cons constrained_Nil split: option.splits)

lemma reduced_info_single: "reduced_info [t] = t"
  by (auto simp: reduced_info_def reduced_def constrained_Cons constrained_Nil split: option.splits)

text \<open>The loop started with an accumulator, on operands that all pass \<open>check\<close>.\<close>

lemma tc_loop_Some:
  assumes "length aops = length ops" "map2 (check T) aops ops = map Some ts"
  shows "(\<not> any_conflict (acc # ts) \<longrightarrow>
            tc_loop T (Some acc) aops ops = Inr (Some (reduced_info (acc # ts))))
         \<and> (any_conflict (acc # ts) \<longrightarrow>
              (\<exists>msg. tc_loop T (Some acc) aops ops = Inl (X86TypeCheckError msg)))"
  using assms
proof (induction aops ops arbitrary: acc ts rule: list_induct2)
  case Nil
  then show ?case by (simp add: single_no_conflict reduced_info_single)
next
  case (Cons a aops op ops)
  from Cons.prems obtain t ts' where ts: "ts = t # ts'" and c: "check T a op = Some t"
    and rest: "map2 (check T) aops ops = map Some ts'"
    by (cases ts) auto
  show ?case
  proof (cases "reduce_typeinfo acc t")
    case (Inl e)
    from reduce_typeinfo_clash[OF Inl, of ts'] show ?thesis
      using c Inl ts by auto
  next
    case (Inr r)
    from reduce_typeinfo_ok[OF Inr, of ts'] Cons.IH[OF rest, of r] show ?thesis
      using c Inr ts by auto
  qed
qed

text \<open>An operand that fails \<open>check\<close> ends the loop with \<open>X86TypeCheckError\<close>, unless a conflict did.\<close>

lemma tc_loop_mismatch:
  assumes "length aops = length ops" "None \<in> set (map2 (check T) aops ops)"
  shows "\<exists>msg. tc_loop T last_ti aops ops = Inl (X86TypeCheckError msg)"
  using assms
proof (induction aops ops arbitrary: last_ti rule: list_induct2)
  case Nil
  then show ?case by simp
next
  case (Cons a aops op ops)
  show ?case
  proof (cases "check T a op")
    case None
    then show ?thesis by simp
  next
    case (Some t)
    with Cons.prems have rest: "None \<in> set (map2 (check T) aops ops)" by auto
    show ?thesis
    proof (cases last_ti)
      case None
      with Some Cons.IH[OF rest, of "Some t"] show ?thesis by simp
    next
      case (Some l)
      note l = this
      show ?thesis
      proof (cases "reduce_typeinfo l t")
        case (Inl e)
        from reduce_typeinfo_clash[OF Inl, of "[]"] Inl l \<open>check T a op = Some t\<close>
        show ?thesis by auto
      next
        case (Inr r)
        with l \<open>check T a op = Some t\<close> Cons.IH[OF rest, of "Some r"] show ?thesis by simp
      qed
    qed
  qed
qed

text \<open>
  Claim C6 (reduction of the per-operand infos).  For an instruction with as many operands as the
  candidate has abstract operand types (at least one): if an operand fails \<open>check\<close> the result is
  \<open>None\<close>; if all operands pass with the infos \<open>ts\<close>, then two different concrete values in the
  same field give \<open>None\<close>, and otherwise the loop ends with the info whose every field is unset
  when no operand constrained it and is the agreed value when one or more did, and the triple
  returned reads that info (\<open>sizeo == True\<close>, \<open>addro == True\<close>, \<open>sego\<close>).
\<close>

theorem TypeCheckInstruction_reduces_fieldwise:
  assumes "length aops = NumOps instr" "aops \<noteq> []"
  shows "(None \<in> set (map2 (check T) aops (operands instr)) \<longrightarrow>
            TypeCheckInstruction_opt T instr aops = Inr None)
       \<and> (\<forall>ts. map2 (check T) aops (operands instr) = map Some ts \<longrightarrow>
            (if any_conflict ts then TypeCheckInstruction_opt T instr aops = Inr None
             else tc_loop T None aops (operands instr) = Inr (Some (reduced_info ts))
                \<and> TypeCheckInstruction_opt T instr aops =
                    Inr (Some (reduced sizeo ts = Some True, reduced addro ts = Some True,
                               reduced sego ts))))"
proof (intro conjI impI allI)
  assume "None \<in> set (map2 (check T) aops (operands instr))"
  moreover from assms(1)[symmetric] assms(2)
  have "length aops = length (operands instr)" "NumOps instr \<noteq> 0"
    by (simp_all add: NumOps_def)
  ultimately obtain msg where
    "tc_loop T None aops (operands instr) = Inl (X86TypeCheckError msg)"
    using tc_loop_mismatch[of aops "operands instr" T None] by blast
  with assms(1) \<open>NumOps instr \<noteq> 0\<close>
  show "TypeCheckInstruction_opt T instr aops = Inr None"
    by (simp add: TypeCheckInstruction_opt_def TypeCheckInstruction_exn_def)
next
  fix ts
  assume all: "map2 (check T) aops (operands instr) = map Some ts"
  from assms obtain a aops' op ops' where
    aops: "aops = a # aops'" and ops: "operands instr = op # ops'"
    and len: "length aops' = length ops'"
    by (cases aops; cases "operands instr") (auto simp: NumOps_def)
  from all aops ops obtain t ts' where ts: "ts = t # ts'" and c: "check T a op = Some t"
    and rest: "map2 (check T) aops' ops' = map Some ts'"
    by (cases ts) auto
  have start: "tc_loop T None aops (operands instr) = tc_loop T (Some t) aops' ops'"
    using aops ops c by simp
  note L = tc_loop_Some[OF len rest, of t]
  from assms(1)[symmetric] assms(2) have ne: "NumOps instr \<noteq> 0" by simp
  show "if any_conflict ts then TypeCheckInstruction_opt T instr aops = Inr None
        else tc_loop T None aops (operands instr) = Inr (Some (reduced_info ts))
           \<and> TypeCheckInstruction_opt T instr aops =
               Inr (Some (reduced sizeo ts = Some True, reduced addro ts = Some True,
                          reduced sego ts))"
  proof (cases "any_conflict ts")
    case True
    with L ts obtain msg where "tc_loop T (Some t) aops' ops' = Inl (X86TypeCheckError msg)"
      by auto
    with True start assms(1) ne show ?thesis
      by (simp add: TypeCheckInstruction_opt_def TypeCheckInstruction_exn_def)
  next
    case False
    with L ts have "tc_loop T (Some t) aops' ops' = Inr (Some (reduced_info ts))" by simp
    with False start assms(1) ne show ?thesis
      by (simp add: TypeCheckInstruction_opt_def TypeCheckInstruction_exn_def reduced_info_def)
  qed
qed

theorem TypeCheckInstruction_reduces_fieldwise_witness:
  "TypeCheckInstruction_opt AOTtoAOTDL_spec
      \<lparr>prefixes = [], mnem = Add,
       operands = [OMem (Mem32 ES Md (Some Eax) None 0 None), OReg (Gd Ecx)]\<rparr> eEvGv
     = Inr (Some (False, False, Some ES))
   \<and> TypeCheckInstruction_opt AOTtoAOTDL_spec
      \<lparr>prefixes = [], mnem = Add, operands = [OReg (Gw Cx), OImm (Id_imm 5)]\<rparr> eEvIz
     = Inr None"
proof -
  let ?i1 = "\<lparr>prefixes = [], mnem = Add,
       operands = [OMem (Mem32 ES Md (Some Eax) None 0 None), OReg (Gd Ecx)]\<rparr>"
  let ?i2 = "\<lparr>prefixes = [], mnem = Add, operands = [OReg (Gw Cx), OImm (Id_imm 5)]\<rparr>"
  let ?t1 = "[\<lparr>sizeo = Some False, addro = Some False, sego = Some ES\<rparr>,
              \<lparr>sizeo = Some False, addro = None, sego = None\<rparr>]"
  let ?t2 = "[\<lparr>sizeo = Some True, addro = None, sego = None\<rparr>,
              \<lparr>sizeo = Some False, addro = None, sego = None\<rparr>]"
  have l1: "length eEvGv = NumOps ?i1" "eEvGv \<noteq> []"
    and l2: "length eEvIz = NumOps ?i2" "eEvIz \<noteq> []"
    by (simp_all add: eEvGv_def eEvIz_def NumOps_def)
  have c1: "map2 (check AOTtoAOTDL_spec) eEvGv (operands ?i1) = map Some ?t1"
    by (simp add: eEvGv_def check_def lenient_sizes_def visit_RegOrMem_def visit_GPart_def
        mem_overrides_def SegPFX_def AddrPFX_def SizePFX_def MATCHES_def TypeCheckInfo_new_def)
  have c2: "map2 (check AOTtoAOTDL_spec) eEvIz (operands ?i2) = map Some ?t2"
    by (simp add: eEvIz_def check_def lenient_sizes_def visit_RegOrMem_def
        visit_Immediate_Immediate_def SizePFX_def MATCHES_def TypeCheckInfo_new_def)
  have n1: "\<not> any_conflict ?t1"
    by (simp add: any_conflict_def conflict_def constrained_Cons constrained_Nil)
  have n2: "any_conflict ?t2"
    by (auto simp: any_conflict_def conflict_def constrained_Cons constrained_Nil)
  from TypeCheckInstruction_reduces_fieldwise
         [OF l1, of AOTtoAOTDL_spec, THEN conjunct2, rule_format, OF c1] n1
  have "TypeCheckInstruction_opt AOTtoAOTDL_spec ?i1 eEvGv = Inr (Some (False, False, Some ES))"
    by (simp add: reduced_def constrained_Cons constrained_Nil)
  moreover
  from TypeCheckInstruction_reduces_fieldwise
         [OF l2, of AOTtoAOTDL_spec, THEN conjunct2, rule_format, OF c2] n2
  have "TypeCheckInstruction_opt AOTtoAOTDL_spec ?i2 eEvIz = Inr None"
    by simp
  ultimately show ?thesis by simp
qed

lemma Iw_range:
  fixes v :: "16 word"
  shows "(v < 0x80 \<or> v \<ge> 0xFF80) \<longleftrightarrow> uint v \<in> {0..0x7F} \<union> {0xFF80..0xFFFF}"
  using uint_lt2p[of v] by (auto simp: word_less_def word_le_def)

lemma Id_range:
  fixes v :: "32 word"
  shows "(v < 0x80 \<or> v \<ge> 0xFFFFFF80) \<longleftrightarrow> uint v \<in> {0..0x7F} \<union> {0xFFFFFF80..0xFFFFFFFF}"
  using uint_lt2p[of v] by (auto simp: word_less_def word_le_def)

text \<open>
  Claim C7 (sign-extended immediates).  Against \<open>SignedImm\<close> with an \<open>Iw\<close> archetype the type
  checker accepts exactly the \<open>Iw\<close> operands whose value is in \<open>[0, 0x7F]\<close> or
  \<open>[0xFF80, 0xFFFF]\<close>; against \<open>SignedImm\<close> with an \<open>Id\<close> archetype exactly the \<open>Id\<close> operands
  whose value is in \<open>[0, 0x7F]\<close> or \<open>[0xFFFFFF80, 0xFFFFFFFF]\<close>.
\<close>

theorem SignedImm_accepts_iff:
  "(tc_visit cs op (SignedImm (OImm (Iw a))) \<noteq> None \<longleftrightarrow>
      (\<exists>v. op = OImm (Iw v) \<and> uint v \<in> {0..0x7F} \<union> {0xFF80..0xFFFF}))
   \<and> (tc_visit cs op (SignedImm (OImm (Id_imm b))) \<noteq> None \<longleftrightarrow>
      (\<exists>v. op = OImm (Id_imm v) \<and> uint v \<in> {0..0x7F} \<union> {0xFFFFFF80..0xFFFFFFFF}))"
  using Iw_range Id_range
  by (auto simp: visit_SignExtImm_Iw_def visit_SignExtImm_Id_def
      split: Operand.splits Immediate.splits)

theorem SignedImm_accepts_iff_witness:
  "tc_visit True (OImm (Iw 0xFF80)) (SignedImm (OImm (Iw 0))) \<noteq> None
   \<and> tc_visit True (OImm (Iw 0x80)) (SignedImm (OImm (Iw 0))) = None
   \<and> tc_visit True (OImm (Id_imm 0x7F)) (SignedImm (OImm (Id_imm 0))) \<noteq> None
   \<and> tc_visit True (OImm (Id_imm 0xFFFFFF7F)) (SignedImm (OImm (Id_imm 0))) = None
   \<and> tc_visit True (OImm (Iw 5)) (SignedImm (OImm (Id_imm 0))) = None"
  using SignedImm_accepts_iff[of True "OImm (Iw 0xFF80)" 0 0]
    SignedImm_accepts_iff[of True "OImm (Iw 0x80)" 0 0]
    SignedImm_accepts_iff[of True "OImm (Id_imm 0x7F)" 0 0]
    SignedImm_accepts_iff[of True "OImm (Id_imm 0xFFFFFF7F)" 0 0]
    SignedImm_accepts_iff[of True "OImm (Iw 5)" 0 0]
  by simp

lemma tc_visit_mem:
  assumes "only_RegOrMem d"
  shows "tc_visit cs (OMem m) d \<noteq> None \<longleftrightarrow>
           (if cs then size_Mem m \<in> set (mem_sizes d) else mem_sizes d \<noteq> [])"
  using assms
proof (induction d)
  case (RegOrMem reg mem)
  have nr: "\<And>r. type_Operand (OMem m) \<noteq> type_Register r"
    by (cases m; case_tac r; simp)
  show ?case
    by (cases mem) (auto simp: visit_RegOrMem_def nr split: option.splits)
qed (auto split: option.splits)

text \<open>
  Claim C8 (size-lenient abstract operand types).  For an abstract operand type whose description
  is built from \<open>RegOrMem\<close> nodes with a memory part: \<open>check\<close> accepts a memory operand of any
  size tag when the type is \<open>FPEnv\<close>, \<open>FPEnvLow\<close> or \<open>SimdState\<close>; for every other type it
  accepts a memory operand exactly when the size tag of the operand is a memory size of the
  description.
\<close>

theorem check_size_lenient:
  assumes "only_RegOrMem (T aop)" "mem_sizes (T aop) \<noteq> []"
  shows "(aop \<in> {OFPEnv, OFPEnvLow, OSimdState} \<longrightarrow> check T aop (OMem m) \<noteq> None) \<and>
         (aop \<notin> {OFPEnv, OFPEnvLow, OSimdState} \<longrightarrow>
            (check T aop (OMem m) \<noteq> None \<longleftrightarrow> size_Mem m \<in> set (mem_sizes (T aop))))"
  using assms tc_visit_mem[OF assms(1), of "aop \<notin> lenient_sizes" m]
  by (auto simp: check_def lenient_sizes_def)

theorem check_size_lenient_witness:
  "check AOTtoAOTDL_spec OFPEnv (OMem (Mem32 DS Mt (Some Eax) None 0 None)) \<noteq> None
   \<and> check AOTtoAOTDL_spec OSimdState (OMem (Mem16 DS Mb (Some Bx) None None)) \<noteq> None
   \<and> check AOTtoAOTDL_spec OEb (OMem (Mem32 DS Mb (Some Eax) None 0 None)) \<noteq> None
   \<and> check AOTtoAOTDL_spec OEb (OMem (Mem32 DS Md (Some Eax) None 0 None)) = None
   \<and> check AOTtoAOTDL_spec OEv (OMem (Mem32 DS Mt (Some Eax) None 0 None)) = None"
proof -
  have h: "only_RegOrMem (AOTtoAOTDL_spec OFPEnv)" "mem_sizes (AOTtoAOTDL_spec OFPEnv) \<noteq> []"
    "only_RegOrMem (AOTtoAOTDL_spec OSimdState)" "mem_sizes (AOTtoAOTDL_spec OSimdState) \<noteq> []"
    "only_RegOrMem (AOTtoAOTDL_spec OEb)" "mem_sizes (AOTtoAOTDL_spec OEb) \<noteq> []"
    "only_RegOrMem (AOTtoAOTDL_spec OEv)" "mem_sizes (AOTtoAOTDL_spec OEv) \<noteq> []"
    by simp_all
  show ?thesis
    using check_size_lenient[of AOTtoAOTDL_spec OFPEnv, OF h(1,2),
          of "Mem32 DS Mt (Some Eax) None 0 None"]
      check_size_lenient[of AOTtoAOTDL_spec OSimdState, OF h(3,4),
          of "Mem16 DS Mb (Some Bx) None None"]
      check_size_lenient[of AOTtoAOTDL_spec OEb, OF h(5,6),
          of "Mem32 DS Mb (Some Eax) None 0 None"]
      check_size_lenient[of AOTtoAOTDL_spec OEb, OF h(5,6),
          of "Mem32 DS Md (Some Eax) None 0 None"]
      check_size_lenient[of AOTtoAOTDL_spec OEv, OF h(7,8),
          of "Mem32 DS Mt (Some Eax) None 0 None"]
    by simp
qed

section \<open>Properties of the encoder\<close>

lemma le_bytes_2: "little_endian_bytes x 2 = [x AND 0xFF, drop_bit 8 x AND 0xFF]"
  by (simp add: little_endian_bytes_def numeral_2_eq_2 upt_rec)

lemma le_bytes_4:
  "little_endian_bytes x 4 =
     [x AND 0xFF, drop_bit 8 x AND 0xFF, drop_bit 16 x AND 0xFF, drop_bit 24 x AND 0xFF]"
  by (simp add: little_endian_bytes_def numeral_nat upt_rec)


text \<open>
  Under the address-size prefix, a target beyond 16 bits takes the \<open>raise\<close> statement of the
  method, whose argument cannot be evaluated.
\<close>

lemma JccTarget_addrpfx_wide_target_raises:
  assumes "addrpfx s" "uint taken > 0xFFFF"
  shows "enc_visit_Immediate_JccTarget s (JccTarget taken nt) = Inl (NameError ''jcc'')"
  using assms by (simp add: enc_visit_Immediate_JccTarget_def)

text \<open>Visiting an operand leaves the prefix members and the stem of the encoder as they are.\<close>

lemma same_frame_refl: "same_frame s s"
  by (simp add: same_frame_def)

lemma same_frame_trans: "same_frame s s1 \<Longrightarrow> same_frame s1 s2 \<Longrightarrow> same_frame s s2"
  by (simp add: same_frame_def)

lemma same_frame_modrm: "same_frame s s1 \<Longrightarrow> same_frame s (s1\<lparr>modrm := m\<rparr>)"
  by (simp add: same_frame_def)

lemma same_frame_AppendImmediate: "same_frame s (AppendImmediate s imm n)"
  by (simp add: same_frame_def AppendImmediate_def)

lemma get_ModRM_frame: "get_ModRM s = (m, s1) \<Longrightarrow> same_frame s s1"
  by (cases "modrm s") (auto simp: get_ModRM_def same_frame_def)

lemma enc_visit_GPart_frame: "enc_visit_GPart s op = Inr s' \<Longrightarrow> same_frame s s'"
  by (cases op; cases "get_ModRM s")
     (auto simp: enc_visit_GPart_def intro: same_frame_modrm get_ModRM_frame)

lemma enc_visit_RegOrMem_Register_frame:
  "enc_visit_RegOrMem_Register s r = Inr s' \<Longrightarrow> same_frame s s'"
  by (cases "get_ModRM s")
     (auto simp: enc_visit_RegOrMem_Register_def intro: same_frame_modrm get_ModRM_frame)

lemma enc_visit_RegOrMem_Mem_frame:
  "enc_visit_RegOrMem_Mem M s mem = Inr s' \<Longrightarrow> same_frame s s'"
  by (cases "get_ModRM s"; cases mem)
     (auto simp: enc_visit_RegOrMem_Mem_def split: sum.splits
        intro: same_frame_modrm get_ModRM_frame)

lemma enc_visit_Immediate_MemExpr_frame:
  "enc_visit_Immediate_MemExpr s op = Inr s' \<Longrightarrow> same_frame s s'"
  by (auto simp: enc_visit_Immediate_MemExpr_def same_frame_AppendImmediate
      split: Operand.splits MemExpr.splits option.splits)

lemma enc_visit_Immediate_FarTarget_frame:
  "enc_visit_Immediate_FarTarget s op = Inr s' \<Longrightarrow> same_frame s s'"
  by (auto simp: enc_visit_Immediate_FarTarget_def AppendImmediate_def same_frame_def
      split: Operand.splits FarTarget.splits)

lemma enc_visit_Immediate_n_frame:
  "enc_visit_Immediate_n n s op = Inr s' \<Longrightarrow> same_frame s s'"
  by (auto simp: enc_visit_Immediate_n_def same_frame_AppendImmediate split: Operand.splits)

lemma enc_visit_Immediate_JccTarget_frame:
  "enc_visit_Immediate_JccTarget s op = Inr s' \<Longrightarrow> same_frame s s'"
  by (cases op)
     (auto simp: enc_visit_Immediate_JccTarget_def Let_def same_frame_AppendImmediate
        split: if_splits)

lemmas visit_frames =
  enc_visit_GPart_frame enc_visit_RegOrMem_Register_frame enc_visit_RegOrMem_Mem_frame
  enc_visit_Immediate_MemExpr_frame enc_visit_Immediate_FarTarget_frame
  enc_visit_Immediate_n_frame enc_visit_Immediate_JccTarget_frame

lemma enc_visit_frame: "enc_visit M s op d = Inr s' \<Longrightarrow> same_frame s s'"
proof (induction M s op d arbitrary: s' rule: enc_visit.induct)
  case (1 M s op yes no)
  then show ?case by (cases "sizepfx s") simp_all
next
  case (2 M s op yes no)
  then show ?case by (cases "addrpfx s") simp_all
next
  case (6 M s op reg mem)
  then show ?case by (cases op) (auto intro: visit_frames)
qed (auto intro: visit_frames same_frame_refl)


lemma visit_operands_frame:
  "visit_operands T M s aops ops = Inr s' \<Longrightarrow> same_frame s s'"
proof (induction T M s aops ops arbitrary: s' rule: visit_operands.induct)
  case (1 T M s ops)
  then show ?case by (simp add: same_frame_refl)
next
  case (2 T M s a aops)
  then show ?case by simp
next
  case (3 T M s a aops op ops)
  then show ?case
    by (cases "enc_visit M s op (T a)") (auto intro: same_frame_trans enc_visit_frame)
qed

lemma Encode_frame:
  "stem (Encode enc s) = stem s \<and> segpfx (Encode enc s) = segpfx s
   \<and> addrpfx (Encode enc s) = addrpfx s \<and> group1pfx (Encode enc s) = group1pfx s
   \<and> sizepfx (Encode enc s) = (sizepfx s \<or> is_Native16 enc)"
  by (cases enc; cases "modrm s") (simp_all add: get_ModRM_def)

lemma encode_loop_selects:
  "encode_loop T M s0 instr encs = Inr s \<Longrightarrow>
     \<exists>enc val. enc \<in> set encs \<and> TypeCheckInstruction_opt T instr (enc_ops enc) = Inr (Some val)
       \<and> encode_with T M s0 instr enc val = Inr s"
proof (induction encs)
  case Nil
  then show ?case by simp
next
  case (Cons enc encs)
  show ?case
  proof (cases "TypeCheckInstruction_opt T instr (enc_ops enc)")
    case (Inl e)
    with Cons.prems show ?thesis by simp
  next
    case (Inr r)
    show ?thesis
    proof (cases r)
      case None
      with Inr Cons show ?thesis by auto
    next
      case (Some val)
      with Inr Cons.prems have "encode_with T M s0 instr enc val = Inr s" by simp
      with Inr Some show ?thesis
        by (intro exI[of _ enc] exI[of _ val]) simp
    qed
  qed
qed

text \<open>
  Claim C3 (order of the output).  When \<open>EncodeInstruction\<close> returns bytes, a candidate of the
  mnemonic type-checked with some triple \<open>(sz, ad, sg)\<close>, and the bytes are, in this order: the
  prefix byte of the segment \<open>sg\<close> if there is one, \<open>67\<close> if \<open>ad\<close>, \<open>66\<close> if \<open>sz\<close> or the candidate
  is a \<open>Native16\<close> one, the stored group-1 prefix if there is one (nothing stores one after
  \<open>Reset\<close>, so the member is \<open>None\<close>), the stem bytes of the candidate, the bytes of the ModR/M
  object if one was created, and the immediates.
\<close>

theorem EncodeInstruction_output_order:
  assumes "EncodeInstruction T M self instr a = Inr bs"
  shows "\<exists>encs enc sz ad sg s.
      mnem_to_encodings (mnem instr) = Some encs
    \<and> enc \<in> set encs
    \<and> TypeCheckInstruction_opt T instr (enc_ops enc) = Inr (Some (sz, ad, sg))
    \<and> EncodeInstruction_state T M self instr a = Inr s
    \<and> group1pfx s = None
    \<and> bs = (case sg of None \<Rightarrow> [] | Some r \<Rightarrow> [PrefixOfSeg r])
         @ (if ad then [0x67] else [])
         @ (if sz \<or> is_Native16 enc then [0x66] else [])
         @ (case group1pfx s of None \<Rightarrow> [] | Some p \<Rightarrow> [p])
         @ enc_bytes enc
         @ (case modrm s of None \<Rightarrow> [] | Some m \<Rightarrow> ModRM_Encode m)
         @ immediates s"
proof -
  from assms obtain s where st: "EncodeInstruction_state T M self instr a = Inr s"
    and bs: "bs = collect s"
    by (auto simp: EncodeInstruction_def split: sum.splits)
  let ?s0 = "(Reset self)\<lparr>addr := a\<rparr>"
  from st obtain encs where row: "mnem_to_encodings (mnem instr) = Some encs"
    and "encode_loop T M ?s0 instr encs = Inr s"
    by (auto simp: EncodeInstruction_state_def split: option.splits)
  from encode_loop_selects[OF this(2)]
  obtain enc val where enc: "enc \<in> set encs"
    and tc: "TypeCheckInstruction_opt T instr (enc_ops enc) = Inr (Some val)"
    and ew: "encode_with T M ?s0 instr enc val = Inr s"
    by blast
  obtain sz ad sg where val: "val = (sz, ad, sg)" by (cases val)
  let ?s1 = "?s0\<lparr>sizepfx := sz, addrpfx := ad, segpfx := sg, stem := enc_bytes enc\<rparr>"
  from ew val have vo: "visit_operands T M (Encode enc ?s1) (enc_ops enc) (operands instr) = Inr s"
    by (simp add: encode_with_def)
  from visit_operands_frame[OF vo] Encode_frame[of enc ?s1]
  have k: "stem s = enc_bytes enc" "segpfx s = sg" "addrpfx s = ad"
    "sizepfx s = (sz \<or> is_Native16 enc)" "group1pfx s = None"
    by (simp_all add: same_frame_def Reset_def)
  have "collect s = (case sg of None \<Rightarrow> [] | Some r \<Rightarrow> [PrefixOfSeg r])
         @ (if ad then [0x67] else [])
         @ (if sz \<or> is_Native16 enc then [0x66] else [])
         @ (case group1pfx s of None \<Rightarrow> [] | Some p \<Rightarrow> [p])
         @ enc_bytes enc
         @ (case modrm s of None \<Rightarrow> [] | Some m \<Rightarrow> ModRM_Encode m)
         @ immediates s"
    unfolding collect_def k by simp
  with bs row enc tc val st k(5) show ?thesis by blast
qed


lemma le_bytes_1: "little_endian_bytes x (Suc 0) = [x AND 0xFF]"
  by (simp add: little_endian_bytes_def)



lemmas tc_eval_simps =
  TypeCheckInstruction_opt_def TypeCheckInstruction_exn_def NumOps_def check_def
  lenient_sizes_def visit_RegOrMem_def visit_GPart_def visit_Exact_def
  visit_Immediate_Immediate_def visit_Immediate_JccTarget_def visit_SignExtImm_Iw_def
  visit_SignExtImm_Id_def mem_overrides_def SegPFX_def AddrPFX_def SizePFX_def MATCHES_def
  TypeCheckInfo_new_def reduce_typeinfo_def opcheck_def
  eEbGb_def eEvGv_def eGbEb_def eGvEv_def eALIb_def erAXIz_def eEbIb_def eEvIz_def eEvIbv_def
  eEv_def eNone_def

lemmas enc_eval_simps =
  EncodeInstruction_def EncodeInstruction_state_def encode_with_def collect_def
  X86Encoder_new_def Reset_def get_ModRM_def ModRM_new_def ModRM_Encode_def
  enc_visit_GPart_def enc_visit_RegOrMem_Register_def enc_visit_RegOrMem_Mem_def
  enc_visit_Immediate_n_def enc_visit_Immediate_JccTarget_def AppendImmediate_def
  le_bytes_1 le_bytes_2 le_bytes_4

theorem EncodeInstruction_output_order_witness:
  "EncodeInstruction AOTtoAOTDL_spec
      \<lparr>EncodeFromParts16 = \<lambda>b i d. Inl IndexError,
       EncodeFromParts32 = \<lambda>b i sc d. Inr (0, 0, [])\<rparr> X86Encoder_new
      \<lparr>prefixes = [], mnem = Add,
       operands = [OMem (Mem32 ES Mw (Some Eax) None 0 None), OImm (Iw 0x1234)]\<rparr> 0
     = Inr [0x26, 0x66, 0x81, 0x00, 0x34, 0x12]
   \<and> (\<exists>encs enc sz ad sg s.
      mnem_to_encodings (mnem
      \<lparr>prefixes = [], mnem = Add,
       operands = [OMem (Mem32 ES Mw (Some Eax) None 0 None), OImm (Iw 0x1234)]\<rparr>) = Some encs
    \<and> enc \<in> set encs
    \<and> TypeCheckInstruction_opt AOTtoAOTDL_spec
      \<lparr>prefixes = [], mnem = Add,
       operands = [OMem (Mem32 ES Mw (Some Eax) None 0 None), OImm (Iw 0x1234)]\<rparr> (enc_ops enc) = Inr (Some (sz, ad, sg))
    \<and> EncodeInstruction_state AOTtoAOTDL_spec
      \<lparr>EncodeFromParts16 = \<lambda>b i d. Inl IndexError,
       EncodeFromParts32 = \<lambda>b i sc d. Inr (0, 0, [])\<rparr> X86Encoder_new
      \<lparr>prefixes = [], mnem = Add,
       operands = [OMem (Mem32 ES Mw (Some Eax) None 0 None), OImm (Iw 0x1234)]\<rparr> 0 = Inr s
    \<and> group1pfx s = None
    \<and> [0x26, 0x66, 0x81, 0x00, 0x34, 0x12] =
           (case sg of None \<Rightarrow> [] | Some r \<Rightarrow> [PrefixOfSeg r])
         @ (if ad then [0x67] else [])
         @ (if sz \<or> is_Native16 enc then [0x66] else [])
         @ (case group1pfx s of None \<Rightarrow> [] | Some p \<Rightarrow> [p])
         @ enc_bytes enc
         @ (case modrm s of None \<Rightarrow> [] | Some m \<Rightarrow> ModRM_Encode m)
         @ immediates s)"
proof -
  have h: "EncodeInstruction AOTtoAOTDL_spec
      \<lparr>EncodeFromParts16 = \<lambda>b i d. Inl IndexError,
       EncodeFromParts32 = \<lambda>b i sc d. Inr (0, 0, [])\<rparr> X86Encoder_new
      \<lparr>prefixes = [], mnem = Add,
       operands = [OMem (Mem32 ES Mw (Some Eax) None 0 None), OImm (Iw 0x1234)]\<rparr> 0
     = Inr [0x26, 0x66, 0x81, 0x00, 0x34, 0x12]"
    by (simp add: tc_eval_simps enc_eval_simps)
  show ?thesis
    by (rule conjI[OF h EncodeInstruction_output_order[OF h]])
qed

text \<open>
  With as many operands as abstract operand types, the loop of the type checker ends with a
  \<open>TypeCheckInfo\<close> or with \<open>X86TypeCheckError\<close>, so \<open>TypeCheckInstruction_opt\<close> always returns.
\<close>

lemma tc_loop_outcome:
  assumes "length aops = length ops"
  shows "(\<exists>msg. tc_loop T last_ti aops ops = Inl (X86TypeCheckError msg))
       \<or> (\<exists>r. tc_loop T last_ti aops ops = Inr r \<and> (r = None \<longrightarrow> last_ti = None \<and> aops = []))"
  using assms
proof (induction aops ops arbitrary: last_ti rule: list_induct2)
  case Nil
  then show ?case by simp
next
  case (Cons a aops op ops)
  show ?case
  proof (cases "check T a op")
    case None
    then show ?thesis by simp
  next
    case (Some t)
    note t = this
    show ?thesis
    proof (cases last_ti)
      case None
      with t Cons.IH[of "Some t"] show ?thesis by auto
    next
      case (Some l)
      note l = this
      show ?thesis
      proof (cases "reduce_typeinfo l t")
        case (Inl e)
        from reduce_typeinfo_clash[OF Inl, of "[]"] Inl l t show ?thesis by auto
      next
        case (Inr r)
        with l t Cons.IH[of "Some r"] show ?thesis by auto
      qed
    qed
  qed
qed

lemma TypeCheckInstruction_opt_total:
  "\<exists>r. TypeCheckInstruction_opt T instr aops = Inr r"
proof (cases "length aops \<noteq> NumOps instr \<or> length aops = 0")
  case True
  then show ?thesis
    by (auto simp: TypeCheckInstruction_opt_def TypeCheckInstruction_exn_def)
next
  case False
  then have len: "length aops = length (operands instr)" and ne: "aops \<noteq> []"
    by (auto simp: NumOps_def)
  from tc_loop_outcome[OF len, of T None] ne False show ?thesis
    by (auto simp: TypeCheckInstruction_opt_def TypeCheckInstruction_exn_def)
qed

lemma encode_loop_find:
  "encode_loop T M s instr encs =
     (case find (type_checks T instr) encs of
        None \<Rightarrow> Inl InvalidInstruction
      | Some enc \<Rightarrow> encode_with T M s instr enc (type_check_val T instr enc))"
proof (induction encs)
  case Nil
  then show ?case by simp
next
  case (Cons enc encs)
  from TypeCheckInstruction_opt_total[of T instr "enc_ops enc"]
  obtain r where r: "TypeCheckInstruction_opt T instr (enc_ops enc) = Inr r" by blast
  show ?case
  proof (cases r)
    case None
    with r Cons show ?thesis by (simp add: type_checks_def)
  next
    case (Some val)
    with r show ?thesis by (simp add: type_checks_def type_check_val_def)
  qed
qed









text \<open>
  A list of abstract operand types that accepts, operand by operand and with the same info,
  whatever another list accepts, type-checks whatever the other list type-checks.
\<close>

lemma tc_loop_mono:
  assumes "list_all2 (\<lambda>a a'. \<forall>op t. check T a op = Some t \<longrightarrow> check T a' op = Some t) aops aops'"
    and "tc_loop T last_ti aops ops = Inr r"
  shows "tc_loop T last_ti aops' ops = Inr r"
  using assms
proof (induction aops aops' arbitrary: last_ti ops rule: list_all2_induct)
  case Nil
  then show ?case by simp
next
  case (Cons a aops a' aops')
  from Cons.prems obtain op ops' where ops: "ops = op # ops'"
    by (cases ops) auto
  from Cons.prems ops obtain t where t: "check T a op = Some t"
    by (cases "check T a op") auto
  with Cons.hyps have t': "check T a' op = Some t" by blast
  show ?case
  proof (cases last_ti)
    case None
    with Cons.prems ops t t' Cons.IH[of "Some t" ops'] show ?thesis by simp
  next
    case (Some l)
    with Cons.prems ops t obtain r' where r': "reduce_typeinfo l t = Inr r'"
      by (cases "reduce_typeinfo l t") auto
    with Some Cons.prems ops t t' Cons.IH[of "Some r'" ops'] show ?thesis by simp
  qed
qed

lemma type_checks_mono:
  assumes "list_all2 (\<lambda>a a'. \<forall>op t. check T a op = Some t \<longrightarrow> check T a' op = Some t)
             (enc_ops e) (enc_ops e')"
    and "type_checks T instr e"
  shows "type_checks T instr e'"
proof -
  from assms(1) have len: "length (enc_ops e') = length (enc_ops e)"
    by (simp add: list_all2_lengthD)
  from assms(2) obtain val where
    v: "TypeCheckInstruction_exn T instr (enc_ops e) = Inr val"
    by (auto simp: type_checks_def TypeCheckInstruction_opt_def
        split: sum.splits option.splits error.splits)
  show ?thesis
  proof (cases "length (enc_ops e) = 0")
    case True
    with v len show ?thesis
      by (auto simp: type_checks_def TypeCheckInstruction_opt_def TypeCheckInstruction_exn_def
          split: if_splits)
  next
    case False
    with v obtain l where l: "tc_loop T None (enc_ops e) (operands instr) = Inr (Some l)"
      and eq: "length (enc_ops e) = NumOps instr"
      by (auto simp: TypeCheckInstruction_exn_def split: if_splits sum.splits option.splits)
    from tc_loop_mono[OF assms(1) l] eq len False show ?thesis
      by (simp add: type_checks_def TypeCheckInstruction_opt_def TypeCheckInstruction_exn_def)
  qed
qed

lemma check_Ibv_Iz:
  "check AOTtoAOTDL_spec OIbv op = Some t \<Longrightarrow> check AOTtoAOTDL_spec OIz op = Some t"
proof (cases op)
  case (OImm i)
  assume "check AOTtoAOTDL_spec OIbv op = Some t"
  with OImm show ?thesis
    by (cases i)
       (auto simp: check_def lenient_sizes_def visit_SignExtImm_Iw_def visit_SignExtImm_Id_def
          visit_Immediate_Immediate_def split: if_splits)
qed (auto simp: check_def lenient_sizes_def visit_SignExtImm_Iw_def visit_SignExtImm_Id_def
       split: option.splits)

lemma Ibv_form_implies_Iz_form:
  assumes "type_checks AOTtoAOTDL_spec instr (ModRMGroup 0 [0x83] eEvIbv)"
  shows "type_checks AOTtoAOTDL_spec instr (ModRMGroup 0 [0x81] eEvIz)"
proof (rule type_checks_mono[OF _ assms])
  show "list_all2 (\<lambda>a a'. \<forall>op t. check AOTtoAOTDL_spec a op = Some t
                       \<longrightarrow> check AOTtoAOTDL_spec a' op = Some t)
          (enc_ops (ModRMGroup 0 [0x83] eEvIbv)) (enc_ops (ModRMGroup 0 [0x81] eEvIz))"
    using check_Ibv_Iz by (simp add: eEvIbv_def eEvIz_def)
qed

lemma Add_never_Ibv_form:
  "find (type_checks AOTtoAOTDL_spec instr)
     [Ordinary [0x00] eEbGb, Ordinary [0x01] eEvGv, Ordinary [0x02] eGbEb, Ordinary [0x03] eGvEv,
      Ordinary [0x04] eALIb, Ordinary [0x05] erAXIz, ModRMGroup 0 [0x80] eEbIb,
      ModRMGroup 0 [0x81] eEvIz, ModRMGroup 0 [0x83] eEvIbv]
     \<noteq> Some (ModRMGroup 0 [0x83] eEvIbv)"
  using Ibv_form_implies_Iz_form[of instr]
  by (auto split: if_splits)

lemma Add_r32_imm32_form:
  "find (type_checks AOTtoAOTDL_spec
           \<lparr>prefixes = p, mnem = Add, operands = [OReg (Gd r), OImm (Id_imm v)]\<rparr>)
     [Ordinary [0x00] eEbGb, Ordinary [0x01] eEvGv, Ordinary [0x02] eGbEb, Ordinary [0x03] eGvEv,
      Ordinary [0x04] eALIb, Ordinary [0x05] erAXIz, ModRMGroup 0 [0x80] eEbIb,
      ModRMGroup 0 [0x81] eEvIz, ModRMGroup 0 [0x83] eEvIbv]
     = Some (if r = Eax then Ordinary [0x05] erAXIz else ModRMGroup 0 [0x81] eEvIz)"
  by (cases "r = Eax") (simp_all add: type_checks_def tc_eval_simps)

lemma Add_r16_imm16_form:
  "find (type_checks AOTtoAOTDL_spec
           \<lparr>prefixes = p, mnem = Add, operands = [OReg (Gw r), OImm (Iw v)]\<rparr>)
     [Ordinary [0x00] eEbGb, Ordinary [0x01] eEvGv, Ordinary [0x02] eGbEb, Ordinary [0x03] eGvEv,
      Ordinary [0x04] eALIb, Ordinary [0x05] erAXIz, ModRMGroup 0 [0x80] eEbIb,
      ModRMGroup 0 [0x81] eEvIz, ModRMGroup 0 [0x83] eEvIbv]
     = Some (if r = Ax then Ordinary [0x05] erAXIz else ModRMGroup 0 [0x81] eEvIz)"
  by (cases "r = Ax") (simp_all add: type_checks_def tc_eval_simps)

text \<open>
  The loop takes the first candidate that type-checks: a candidate is not reached when one
  before it in the row type-checks.
\<close>

lemma first_match_skips_imm8_form:
  assumes "type_checks T i (ModRMGroup 0 [0x81] eEvIz)"
  shows "\<exists>enc. find (type_checks T i)
     [Ordinary [0x00] eEbGb, Ordinary [0x01] eEvGv, Ordinary [0x02] eGbEb, Ordinary [0x03] eGvEv,
      Ordinary [0x04] eALIb, Ordinary [0x05] erAXIz, ModRMGroup 0 [0x80] eEbIb,
      ModRMGroup 0 [0x81] eEvIz, ModRMGroup 0 [0x83] eEvIbv] = Some enc
       \<and> enc \<noteq> ModRMGroup 0 [0x83] eEvIbv"
  using assms by simp

lemma EncodeInstruction_find:
  "EncodeInstruction T M self instr a =
     (case mnem_to_encodings (mnem instr) of
        None \<Rightarrow> Inl TypeError
      | Some encs \<Rightarrow>
          (case find (type_checks T instr) encs of
             None \<Rightarrow> Inl InvalidInstruction
           | Some enc \<Rightarrow>
               (case encode_with T M ((Reset self)\<lparr>addr := a\<rparr>) instr enc
                       (type_check_val T instr enc) of
                  Inl e \<Rightarrow> Inl e
                | Inr s \<Rightarrow> Inr (collect s))))"
  by (simp add: EncodeInstruction_def EncodeInstruction_state_def encode_loop_find
      split: option.splits)

text \<open>
  Claim C1 (first matching candidate), as amended.  \<open>EncodeInstruction\<close> uses the first candidate
  of the mnemonic, in table order, whose operand types type-check the operands; it raises
  \<open>InvalidInstruction\<close> when there is none, and \<open>TypeError\<close> when the mnemonic has no row.  In
  the row of \<open>ADD\<close> the imm32 form (stem \<open>81\<close>, \<open>Ev,Iz\<close>) stands before the sign-extended imm8
  form (stem \<open>83\<close>, \<open>Ev,Ibv\<close>): whenever the form with stem \<open>81\<close> type-checks, a form other than
  the one with stem \<open>83\<close> is selected.  With the operand types of \<open>AOTtoAOTDL_spec\<close> the form
  with stem \<open>81\<close> type-checks whenever the one with stem \<open>83\<close> does, so the form with stem
  \<open>83\<close> is never selected; a 32-bit register with an \<open>Id\<close> immediate, and a 16-bit register
  with an \<open>Iw\<close> immediate, of any value, select the form with stem \<open>81\<close>, or \<open>05\<close> when the
  register is \<open>EAX\<close> or \<open>AX\<close>.
\<close>

theorem EncodeInstruction_first_match:
  "EncodeInstruction T M self instr a =
     (case mnem_to_encodings (mnem instr) of
        None \<Rightarrow> Inl TypeError
      | Some encs \<Rightarrow>
          (case find (type_checks T instr) encs of
             None \<Rightarrow> Inl InvalidInstruction
           | Some enc \<Rightarrow>
               (case encode_with T M ((Reset self)\<lparr>addr := a\<rparr>) instr enc
                       (type_check_val T instr enc) of
                  Inl e \<Rightarrow> Inl e
                | Inr s \<Rightarrow> Inr (collect s))))
   \<and> (\<exists>encs. mnem_to_encodings Add = Some encs
        \<and> (type_checks T i (ModRMGroup 0 [0x81] eEvIz) \<longrightarrow>
             (\<exists>enc. find (type_checks T i) encs = Some enc
                  \<and> enc \<noteq> ModRMGroup 0 [0x83] eEvIbv))
        \<and> find (type_checks AOTtoAOTDL_spec j) encs \<noteq> Some (ModRMGroup 0 [0x83] eEvIbv)
        \<and> find (type_checks AOTtoAOTDL_spec
                  \<lparr>prefixes = p, mnem = Add, operands = [OReg (Gd r), OImm (Id_imm v)]\<rparr>) encs
            = Some (if r = Eax then Ordinary [0x05] erAXIz else ModRMGroup 0 [0x81] eEvIz)
        \<and> find (type_checks AOTtoAOTDL_spec
                  \<lparr>prefixes = p, mnem = Add, operands = [OReg (Gw rw), OImm (Iw vw)]\<rparr>) encs
            = Some (if rw = Ax then Ordinary [0x05] erAXIz else ModRMGroup 0 [0x81] eEvIz))"
proof (rule conjI)
  show "EncodeInstruction T M self instr a =
     (case mnem_to_encodings (mnem instr) of
        None \<Rightarrow> Inl TypeError
      | Some encs \<Rightarrow>
          (case find (type_checks T instr) encs of
             None \<Rightarrow> Inl InvalidInstruction
           | Some enc \<Rightarrow>
               (case encode_with T M ((Reset self)\<lparr>addr := a\<rparr>) instr enc
                       (type_check_val T instr enc) of
                  Inl e \<Rightarrow> Inl e
                | Inr s \<Rightarrow> Inr (collect s))))"
    by (rule EncodeInstruction_find)
next
  let ?row = "[Ordinary [0x00] eEbGb, Ordinary [0x01] eEvGv, Ordinary [0x02] eGbEb,
      Ordinary [0x03] eGvEv, Ordinary [0x04] eALIb, Ordinary [0x05] erAXIz,
      ModRMGroup 0 [0x80] eEbIb, ModRMGroup 0 [0x81] eEvIz, ModRMGroup 0 [0x83] eEvIbv]"
  have row: "mnem_to_encodings Add = Some ?row" by simp
  show "\<exists>encs. mnem_to_encodings Add = Some encs
        \<and> (type_checks T i (ModRMGroup 0 [0x81] eEvIz) \<longrightarrow>
             (\<exists>enc. find (type_checks T i) encs = Some enc
                  \<and> enc \<noteq> ModRMGroup 0 [0x83] eEvIbv))
        \<and> find (type_checks AOTtoAOTDL_spec j) encs \<noteq> Some (ModRMGroup 0 [0x83] eEvIbv)
        \<and> find (type_checks AOTtoAOTDL_spec
                  \<lparr>prefixes = p, mnem = Add, operands = [OReg (Gd r), OImm (Id_imm v)]\<rparr>) encs
            = Some (if r = Eax then Ordinary [0x05] erAXIz else ModRMGroup 0 [0x81] eEvIz)
        \<and> find (type_checks AOTtoAOTDL_spec
                  \<lparr>prefixes = p, mnem = Add, operands = [OReg (Gw rw), OImm (Iw vw)]\<rparr>) encs
            = Some (if rw = Ax then Ordinary [0x05] erAXIz else ModRMGroup 0 [0x81] eEvIz)"
  proof (intro exI[of _ ?row] conjI impI)
    show "mnem_to_encodings Add = Some ?row" by (rule row)
    show "\<exists>enc. find (type_checks T i) ?row = Some enc \<and> enc \<noteq> ModRMGroup 0 [0x83] eEvIbv"
      if "type_checks T i (ModRMGroup 0 [0x81] eEvIz)"
      using that by (rule first_match_skips_imm8_form)
    show "find (type_checks AOTtoAOTDL_spec j) ?row \<noteq> Some (ModRMGroup 0 [0x83] eEvIbv)"
      by (rule Add_never_Ibv_form)
    show "find (type_checks AOTtoAOTDL_spec
                  \<lparr>prefixes = p, mnem = Add, operands = [OReg (Gd r), OImm (Id_imm v)]\<rparr>) ?row
            = Some (if r = Eax then Ordinary [0x05] erAXIz else ModRMGroup 0 [0x81] eEvIz)"
      by (rule Add_r32_imm32_form)
    show "find (type_checks AOTtoAOTDL_spec
                  \<lparr>prefixes = p, mnem = Add, operands = [OReg (Gw rw), OImm (Iw vw)]\<rparr>) ?row
            = Some (if rw = Ax then Ordinary [0x05] erAXIz else ModRMGroup 0 [0x81] eEvIz)"
      by (rule Add_r16_imm16_form)
  qed
qed

theorem EncodeInstruction_first_match_witness:
  "type_checks AOTtoAOTDL_spec
      \<lparr>prefixes = [], mnem = Add, operands = [OReg (Gd Ecx), OImm (Id_imm 5)]\<rparr>
      (ModRMGroup 0 [0x81] eEvIz)
   \<and> (\<exists>encs. mnem_to_encodings Add = Some encs
        \<and> (\<exists>enc. find (type_checks AOTtoAOTDL_spec
                  \<lparr>prefixes = [], mnem = Add, operands = [OReg (Gd Ecx), OImm (Id_imm 5)]\<rparr>)
                  encs = Some enc
               \<and> enc \<noteq> ModRMGroup 0 [0x83] eEvIbv))
   \<and> EncodeInstruction AOTtoAOTDL_spec
        \<lparr>EncodeFromParts16 = \<lambda>b i d. Inl IndexError,
         EncodeFromParts32 = \<lambda>b i sc d. Inl IndexError\<rparr> X86Encoder_new
        \<lparr>prefixes = [], mnem = Jz, operands = [JccTarget 0x100 0]\<rparr> 0
     = Inl TypeError
   \<and> EncodeInstruction AOTtoAOTDL_spec
        \<lparr>EncodeFromParts16 = \<lambda>b i d. Inl IndexError,
         EncodeFromParts32 = \<lambda>b i sc d. Inl IndexError\<rparr> X86Encoder_new
        \<lparr>prefixes = [], mnem = Add, operands = [OImm (Ib 5)]\<rparr> 0
     = Inl InvalidInstruction"
proof -
  let ?M = "\<lparr>EncodeFromParts16 = \<lambda>b i d. Inl IndexError,
             EncodeFromParts32 = \<lambda>b i sc d. Inl IndexError\<rparr>"
  let ?i = "\<lparr>prefixes = [], mnem = Add, operands = [OReg (Gd Ecx), OImm (Id_imm 5)]\<rparr>"
  let ?z = "\<lparr>prefixes = [], mnem = Jz, operands = [JccTarget 0x100 0]\<rparr>"
  let ?k = "\<lparr>prefixes = [], mnem = Add, operands = [OImm (Ib 5)]\<rparr>"
  have h: "type_checks AOTtoAOTDL_spec ?i (ModRMGroup 0 [0x81] eEvIz)"
    by (simp add: type_checks_def tc_eval_simps)
  have rz: "mnem_to_encodings (mnem ?z) = None" by simp
  have rk: "mnem_to_encodings (mnem ?k) = Some
     [Ordinary [0x00] eEbGb, Ordinary [0x01] eEvGv, Ordinary [0x02] eGbEb,
      Ordinary [0x03] eGvEv, Ordinary [0x04] eALIb, Ordinary [0x05] erAXIz,
      ModRMGroup 0 [0x80] eEbIb, ModRMGroup 0 [0x81] eEvIz, ModRMGroup 0 [0x83] eEvIbv]"
    by simp
  have fk: "find (type_checks AOTtoAOTDL_spec ?k)
     [Ordinary [0x00] eEbGb, Ordinary [0x01] eEvGv, Ordinary [0x02] eGbEb,
      Ordinary [0x03] eGvEv, Ordinary [0x04] eALIb, Ordinary [0x05] erAXIz,
      ModRMGroup 0 [0x80] eEbIb, ModRMGroup 0 [0x81] eEvIz, ModRMGroup 0 [0x83] eEvIbv] = None"
    by (simp add: type_checks_def tc_eval_simps)
  note tz = EncodeInstruction_first_match
      [where T = AOTtoAOTDL_spec and M = ?M and self = X86Encoder_new and instr = ?z and a = 0
         and i = ?i and j = ?i and p = "[]" and r = Ecx and v = 5 and rw = Cx and vw = 5]
  note tk = EncodeInstruction_first_match
      [where T = AOTtoAOTDL_spec and M = ?M and self = X86Encoder_new and instr = ?k and a = 0
         and i = ?i and j = ?i and p = "[]" and r = Ecx and v = 5 and rw = Cx and vw = 5]
  from tz[THEN conjunct2] obtain encs where e: "mnem_to_encodings Add = Some encs"
    and imp: "type_checks AOTtoAOTDL_spec ?i (ModRMGroup 0 [0x81] eEvIz) \<longrightarrow>
             (\<exists>enc. find (type_checks AOTtoAOTDL_spec ?i) encs = Some enc
                  \<and> enc \<noteq> ModRMGroup 0 [0x83] eEvIbv)"
    by blast
  from imp h have "\<exists>enc. find (type_checks AOTtoAOTDL_spec ?i) encs = Some enc
                  \<and> enc \<noteq> ModRMGroup 0 [0x83] eEvIbv" by (rule mp)
  with e have w: "\<exists>encs. mnem_to_encodings Add = Some encs
        \<and> (\<exists>enc. find (type_checks AOTtoAOTDL_spec ?i) encs = Some enc
               \<and> enc \<noteq> ModRMGroup 0 [0x83] eEvIbv)"
    by blast
  have c: "EncodeInstruction AOTtoAOTDL_spec ?M X86Encoder_new ?z 0 = Inl TypeError"
    by (simp only: tz[THEN conjunct1] rz option.case)
  have d: "EncodeInstruction AOTtoAOTDL_spec ?M X86Encoder_new ?k 0 = Inl InvalidInstruction"
    by (simp only: tk[THEN conjunct1] rk fk option.case)
  from h w c d show ?thesis by (intro conjI)
qed

text \<open>
  The stems of the row of \<open>ADD\<close> in table order, and its last two candidates: the imm32 form
  comes before the sign-extended imm8 form.
\<close>

theorem Add_row_imm32_form_before_imm8_form:
  "map_option (map enc_bytes) (mnem_to_encodings Add)
     = Some [[0x00], [0x01], [0x02], [0x03], [0x04], [0x05], [0x80], [0x81], [0x83]]
   \<and> map_option (drop 7) (mnem_to_encodings Add)
     = Some [ModRMGroup 0 [0x81] eEvIz, ModRMGroup 0 [0x83] eEvIbv]"
  by simp

section \<open>Properties of memory expressions\<close>





end
